theory Spec2Isabelle
  imports Complex_Main
begin

text \<open>
  A model of the Bayesian-network regression scripts: the inference routine
  \<open>predict_impl\<close> (src/bnn\_inference/predict.py) with the console it prints to, and the
  loader, the regressor, the evaluation routine and the training loop of
  bnn\_geotech.py.  Python values are modelled as the code uses them: optional arguments
  as options, dictionaries as maps, exceptions and \<open>sys.exit()\<close> as results, loops as
  recursive functions.  The numerical libraries (numpy, pandas, torch, blitz) are
  followed operation by operation where the code depends on what they return;
  floating-point numbers are idealised as reals, with NaN kept apart.  The definitions
  come first, then the properties.
\<close>

section \<open>Console (src/bnn\_inference/tools/console.py)\<close>

text \<open>
  Every method of \<open>Console\<close> prints one line made of a coloured tag and the arguments
  joined by single blanks (\<open>" ".join(map(str, args))\<close>).  A printed line is an event that
  keeps the method (the tag) and the joined text.  \<open>Console.info\<close>, \<open>Console.warn\<close> and
  \<open>Console.error\<close> print and return; only \<open>Console.quit\<close> ends with \<open>sys.exit()\<close>.
\<close>

datatype event = Info string | Warn string | Error string | Quit string

fun console_join :: "string list \<Rightarrow> string" where
  "console_join [] = []"
| "console_join [a] = a"
| "console_join (a # b # rest) = a @ '' '' @ console_join (b # rest)"

text \<open>What a call leaves behind: the printed lines, and whether the process is still
  running afterwards (\<open>True\<close>) or has been stopped by \<open>sys.exit()\<close> (\<open>False\<close>).\<close>

definition console_info :: "string list \<Rightarrow> event list \<times> bool" where
  "console_info args = ([Info (console_join args)], True)"

definition console_warn :: "string list \<Rightarrow> event list \<times> bool" where
  "console_warn args = ([Warn (console_join args)], True)"

definition console_error :: "string list \<Rightarrow> event list \<times> bool" where
  "console_error args = ([Error (console_join args)], True)"

definition console_quit :: "string list \<Rightarrow> event list \<times> bool" where
  "console_quit args = ([Quit (console_join args)], False)"

section \<open>Python helpers\<close>

text \<open>\<open>str(i)\<close> for a non-negative integer: its decimal digits.\<close>

definition digit_char :: "nat \<Rightarrow> char" where
  "digit_char d = ''0123456789'' ! (d mod 10)"

fun str_nat :: "nat \<Rightarrow> string" where
  "str_nat n = (if n < 10 then [digit_char n] else str_nat (n div 10) @ [digit_char n])"

declare str_nat.simps [simp del]

definition zfill :: "nat \<Rightarrow> string \<Rightarrow> string" where
  "zfill w s = replicate (w - length s) (CHR ''0'') @ s"

text \<open>\<open>datetime.now()\<close> is an input of the model; \<open>strftime\<close> with the format
  \<open>%Y%m%d_%H%M%S\<close> writes the six fields as zero-padded decimals.\<close>

record datetime =
  year :: nat
  month :: nat
  day :: nat
  hour :: nat
  minute :: nat
  second :: nat

definition strftime_stamp :: "datetime \<Rightarrow> string" where
  "strftime_stamp t =
     zfill 4 (str_nat (year t)) @ zfill 2 (str_nat (month t)) @ zfill 2 (str_nat (day t))
     @ ''_'' @ zfill 2 (str_nat (hour t)) @ zfill 2 (str_nat (minute t))
     @ zfill 2 (str_nat (second t))"

text \<open>Truthiness of the optional arguments (\<open>None\<close>, \<open>0\<close>, \<open>0.0\<close> and \<open>""\<close> are falsy).\<close>

fun truthy_int :: "int option \<Rightarrow> bool" where
  "truthy_int None = False"
| "truthy_int (Some n) = (n \<noteq> 0)"

fun truthy_float :: "real option \<Rightarrow> bool" where
  "truthy_float None = False"
| "truthy_float (Some r) = (r \<noteq> 0)"

fun truthy_str :: "string option \<Rightarrow> bool" where
  "truthy_str None = False"
| "truthy_str (Some s) = (s \<noteq> [])"

section \<open>predict\_impl: file checks and defaults (predict.py, lines 35--94)\<close>

text \<open>
  The arguments of \<open>predict_impl\<close> that these lines read.  The file names are strings;
  the keys, the number of samples and the scale factor may be \<open>None\<close>.  (The type of the
  output layer is passed on to the regressor's constructor; the GPU index and the CPU switch
  only reach \<open>get_torch_device\<close>, which is not among the sources, and are left out.)
  \<open>os.path.isfile\<close> is the predicate \<open>isfile\<close> and \<open>datetime.now()\<close> the value \<open>now\<close>.
\<close>

record predict_args =
  latent_csv :: string
  latent_key :: "string option"
  target_key :: "string option"
  output_csv :: string
  output_network_filename :: string
  num_samples :: "int option"
  scale_factor :: "real option"

record config =
  output_name :: string
  k_samples :: int
  output_key :: string
  input_key :: string
  scaling_factor :: real

datatype 'a run = SysExit | Proceeds 'a

text \<open>The checks of lines 44--57: the latent file, then the pretrained network.\<close>

definition check_latent_csv :: "(string \<Rightarrow> bool) \<Rightarrow> predict_args \<Rightarrow> event list \<times> bool" where
  "check_latent_csv isfile a =
     (if isfile (latent_csv a)
      then console_info [''Latent input file: '', latent_csv a]
      else console_error [''Latent input file ['' @ latent_csv a
             @ ''] not found. Please check the provided input path (-l, --latent)''])"

definition check_network :: "(string \<Rightarrow> bool) \<Rightarrow> predict_args \<Rightarrow> event list \<times> bool" where
  "check_network isfile a =
     (if isfile (output_network_filename a)
      then console_info [''Pre-trained network file ['', output_network_filename a, ''] found'']
      else console_quit [''No pre-trained network found at: '', output_network_filename a])"

text \<open>The defaults of lines 59--92.\<close>

definition default_output_csv :: "datetime \<Rightarrow> string \<Rightarrow> string" where
  "default_output_csv now out =
     (if out = [] then strftime_stamp now @ ''_bnn_predictions.csv'' else out)"

definition default_k_samples :: "int option \<Rightarrow> int" where
  "default_k_samples ns = (if truthy_int ns then the ns else 20)"

definition default_output_key :: "string option \<Rightarrow> string" where
  "default_output_key tk = (if truthy_str tk then the tk else ''predicted'')"

definition default_input_key :: "string option \<Rightarrow> string" where
  "default_input_key lk = (if truthy_str lk then the lk else ''latent_'')"

definition default_scaling_factor :: "real option \<Rightarrow> real" where
  "default_scaling_factor sf = (if truthy_float sf then the sf else 1)"

definition make_config :: "datetime \<Rightarrow> predict_args \<Rightarrow> config" where
  "make_config now a =
     \<lparr> output_name = default_output_csv now (output_csv a),
       k_samples = default_k_samples (num_samples a),
       output_key = default_output_key (target_key a),
       input_key = default_input_key (latent_key a),
       scaling_factor = default_scaling_factor (scale_factor a) \<rparr>"

text \<open>
  Lines 35--94 in order.  A step is run only while the process is alive; the result is
  every line printed and either \<open>SysExit\<close> or the configuration with which line 95 is
  reached.
\<close>

definition predict_prelude ::
  "(string \<Rightarrow> bool) \<Rightarrow> datetime \<Rightarrow> predict_args \<Rightarrow> event list \<times> config run" where
  "predict_prelude isfile now a =
     (let (e0, _) = console_info
            [''Bayesian NN inference module. Predicting hi-res terrain maps from lo-res features''];
          (e1, _) = console_info
            [''Prediction mode enabled. Looking for pretained network and input latent vectors''];
          (e2, alive2) = check_latent_csv isfile a
      in if \<not> alive2 then (e0 @ e1 @ e2, SysExit)
         else let (e3, alive3) = check_network isfile a
         in if \<not> alive3 then (e0 @ e1 @ e2 @ e3, SysExit)
            else let c = make_config now a;
                     (e4, _) = (if isfile (output_name c)
                                then console_warn [''Output file ['', output_name c,
                                       ''] already exists. It will be overwritten (default action)'']
                                else console_info [''Output file: '', output_name c]);
                     (e5, _) = console_info [''Loading latent input ['', latent_csv a, '']'']
                 in (e0 @ e1 @ e2 @ e3 @ e4 @ e5, Proceeds c))"

section \<open>Data frames and column selection (pandas, as the sources use it)\<close>

datatype py_error =
    KeyError string
  | TypeError string
  | ValueError string
  | RuntimeError string
  | FileNotFoundError string
  | ZeroDivisionError

text \<open>An exception ends the run: the next step is made only on a result.\<close>

definition and_then :: "py_error + 'a \<Rightarrow> ('a \<Rightarrow> py_error + 'b) \<Rightarrow> py_error + 'b" where
  "and_then r f = (case r of Inl e \<Rightarrow> Inl e | Inr v \<Rightarrow> f v)"

text \<open>A cell holds a number, a text or NaN.  A data frame has an index (with an
  optional name) and named columns, in order; column names may repeat.\<close>

datatype cell = Num real | Txt string | NaNcell

record dataframe =
  index_name :: "string option"
  index_vals :: "cell list"
  columns :: "(string \<times> cell list) list"

definition column_names :: "dataframe \<Rightarrow> string list" where
  "column_names df = map fst (columns df)"

text \<open>
  \<open>df.filter(regex=key)\<close> keeps the columns for which \<open>re.search(key, name)\<close> finds a
  match.  The keys of this program are plain words (\<open>latent_\<close>, \<open>h\<close>): for a pattern
  without regular-expression operators \<open>re.search\<close> is a search for the key as a
  contiguous part of the name, at any position.
\<close>

primrec starts_with :: "string \<Rightarrow> string \<Rightarrow> bool" where
  "starts_with [] s = True"
| "starts_with (c # cs) s = (case s of [] \<Rightarrow> False | d # ds \<Rightarrow> c = d \<and> starts_with cs ds)"

primrec re_search :: "string \<Rightarrow> string \<Rightarrow> bool" where
  "re_search key [] = (key = [])"
| "re_search key (c # cs) = (starts_with key (c # cs) \<or> re_search key cs)"

definition filter_regex :: "string \<Rightarrow> dataframe \<Rightarrow> dataframe" where
  "filter_regex key df = df\<lparr>columns := filter (\<lambda>c. re_search key (fst c)) (columns df)\<rparr>"

text \<open>\<open>df.drop(labels, axis=1)\<close>: every column whose name is among the labels goes.\<close>

definition drop_columns :: "string list \<Rightarrow> dataframe \<Rightarrow> dataframe" where
  "drop_columns labels df = df\<lparr>columns := filter (\<lambda>c. fst c \<notin> set labels) (columns df)\<rparr>"

definition range_index :: "nat \<Rightarrow> cell list" where
  "range_index n = map (\<lambda>i. Num (real i)) [0..<n]"

text \<open>\<open>reset_index(drop=False)\<close> moves the index into a first column, named after the
  index, or \<open>index\<close> (\<open>level_0\<close> when \<open>index\<close> is taken) for a nameless one, and
  refuses a name that a column already has; \<open>reset_index(drop=True)\<close> forgets the
  index.  Both number the rows anew.\<close>

definition reset_index_keep :: "dataframe \<Rightarrow> py_error + dataframe" where
  "reset_index_keep df =
     (let name = (case index_name df of
                    Some n \<Rightarrow> n
                  | None \<Rightarrow> if ''index'' \<in> set (column_names df) then ''level_0'' else ''index'')
      in if name \<in> set (column_names df)
         then Inl (ValueError (''cannot insert '' @ name @ '', already exists''))
         else Inr \<lparr> index_name = None,
                    index_vals = range_index (length (index_vals df)),
                    columns = (name, index_vals df) # columns df \<rparr>)"

definition reset_index_drop :: "dataframe \<Rightarrow> dataframe" where
  "reset_index_drop df =
     df\<lparr>index_name := None, index_vals := range_index (length (index_vals df))\<rparr>"

text \<open>\<open>pd.concat([a, b], axis=1)\<close> of two frames numbered from 0: the columns of \<open>a\<close>
  followed by those of \<open>b\<close>, over the longer of the two row ranges, the shorter frame
  filled with NaN.\<close>

definition pad_column :: "nat \<Rightarrow> string \<times> cell list \<Rightarrow> string \<times> cell list" where
  "pad_column n c = (fst c, snd c @ replicate (n - length (snd c)) NaNcell)"

definition concat_axis1 :: "dataframe \<Rightarrow> dataframe \<Rightarrow> dataframe" where
  "concat_axis1 a b =
     (let n = max (length (index_vals a)) (length (index_vals b))
      in \<lparr> index_name = None,
           index_vals = range_index n,
           columns = map (pad_column n) (columns a) @ map (pad_column n) (columns b) \<rparr>)"

section \<open>predict\_impl: rebuilding the regressor (predict.py, lines 95--132)\<close>

text \<open>
  Modelled from the spec: \<open>PredictiveEngine.loadData\<close> (bnn\_inference/tools/predictor.py)
  is not among the sources.  The spec's dataset loader reads the CSV and isolates the
  latent-feature columns by name prefix; its second result is the number of those columns,
  as in \<open>load_dataset\<close> of bnn\_geotech.py.  Only that count is modelled here; the latent
  matrix and the data frame it also returns are inputs of the later steps.
\<close>

definition loadData_n_latents :: "dataframe \<Rightarrow> string \<Rightarrow> nat" where
  "loadData_n_latents csv input_key_prefix =
     length (columns (filter_regex input_key_prefix csv))"

text \<open>A checkpoint is the dictionary \<open>torch.load\<close> returns: training metadata and, under
  \<open>model_state_dict\<close>, a dictionary of tensors.  A tensor is kept as the list of its rows,
  so that \<open>len\<close> is the size of its first dimension.\<close>

type_synonym tensor = "real list list"

datatype entry = StateDict "string \<rightharpoonup> tensor" | Meta real

type_synonym checkpoint = "string \<rightharpoonup> entry"

text \<open>
  Modelled from the spec: the class \<open>BayesianRegressor\<close> of bnn\_inference/tools/bnn\_model.py
  is not among the sources.  The data model gives a network a declared input dimension and
  a declared output dimension; the constructor call of predict.py passes them together
  with the type of the output layer, and \<open>load_state_dict\<close> then fills in the weights.
\<close>

record regressor =
  input_dim :: nat
  output_dim :: nat
  output_type :: string
  state :: "(string \<rightharpoonup> tensor) option"

definition BayesianRegressor_new :: "nat \<Rightarrow> nat \<Rightarrow> string \<Rightarrow> regressor" where
  "BayesianRegressor_new i odim t =
     \<lparr> input_dim = i, output_dim = odim, output_type = t, state = None \<rparr>"

definition state_dict_of :: "checkpoint \<Rightarrow> py_error + (string \<rightharpoonup> tensor)" where
  "state_dict_of trained_network =
     (case trained_network ''model_state_dict'' of
        None \<Rightarrow> Inl (KeyError ''model_state_dict'')
      | Some (Meta _) \<Rightarrow> Inl (TypeError ''not subscriptable'')
      | Some (StateDict sd) \<Rightarrow> Inr sd)"

definition output_size_of :: "checkpoint \<Rightarrow> py_error + nat" where
  "output_size_of trained_network =
     (case state_dict_of trained_network of
        Inl e \<Rightarrow> Inl e
      | Inr sd \<Rightarrow> (case sd ''linear_output.weight'' of
                     None \<Rightarrow> Inl (KeyError ''linear_output.weight'')
                   | Some w \<Rightarrow> Inr (length w)))"

text \<open>
  Lines 95--132.  Whether CUDA is available only changes the line printed and the device
  the checkpoint is mapped to; both branches read the output size and build the regressor
  in the same way.  \<open>accepts\<close> stands for the strict check of \<open>load_state_dict\<close> (every
  parameter of the module present in the checkpoint with the module's shape), which
  belongs to the missing class: a checkpoint that fails it raises.
\<close>

definition build_regressor ::
  "bool \<Rightarrow> (regressor \<Rightarrow> (string \<rightharpoonup> tensor) \<Rightarrow> bool) \<Rightarrow> dataframe \<Rightarrow> checkpoint \<Rightarrow> string
     \<Rightarrow> event list \<times> (py_error + regressor)" where
  "build_regressor cuda accepts csv trained_network output_layer_type =
     (let n_latents = loadData_n_latents csv ''latent_'';
          ev = (if cuda then fst (console_info [''Using CUDA''])
                else fst (console_warn [''Using CPU'']))
      in (ev,
          case output_size_of trained_network of
            Inl e \<Rightarrow> Inl e
          | Inr output_size \<Rightarrow>
              (let r = BayesianRegressor_new n_latents output_size output_layer_type
               in case state_dict_of trained_network of
                    Inl e \<Rightarrow> Inl e
                  | Inr sd \<Rightarrow> if accepts r sd then Inr (r\<lparr>state := Some sd\<rparr>)
                              else Inl (RuntimeError ''Error(s) in loading state_dict''))))"

section \<open>predict\_impl: Monte Carlo sampling (predict.py, lines 164--182)\<close>

text \<open>
  Floating-point numbers are idealised as reals, with NaN kept apart where the code
  produces it.  A stochastic forward pass is a function of the number of passes made
  before it: \<open>reg c x j\<close> is entry \<open>j\<close> of the output of pass number \<open>c\<close> on the input
  row \<open>x\<close>.  The output of one pass is a row of \<open>out\<close> numbers (a \<open>1 \<times> out\<close> array).
\<close>

type_synonym forward = "nat \<Rightarrow> real list \<Rightarrow> nat \<Rightarrow> real"

definition forward_pass :: "forward \<Rightarrow> nat \<Rightarrow> nat \<Rightarrow> real list \<Rightarrow> real list" where
  "forward_pass reg out c x = map (reg c x) [0..<out]"

text \<open>The loop \<open>for n in range(k_samples)\<close>: \<open>m\<close> passes are still to be made, \<open>c\<close> passes
  have been made so far.\<close>

fun draw_predictions ::
  "forward \<Rightarrow> nat \<Rightarrow> real list \<Rightarrow> nat \<Rightarrow> nat \<Rightarrow> real list list \<Rightarrow> real list list \<times> nat" where
  "draw_predictions reg out x 0 c predictions = (predictions, c)"
| "draw_predictions reg out x (Suc m) c predictions =
     draw_predictions reg out x m (Suc c) (predictions @ [forward_pass reg out c x])"

text \<open>\<open>np.mean(predictions, axis=0)\<close> and \<open>np.std(predictions, axis=0)\<close> (\<open>ddof=0\<close>: the
  squared deviations are divided by the number of samples).  On an empty list both are
  the scalar NaN.\<close>

datatype stat = NaN | Arr "real list"

definition column :: "real list list \<Rightarrow> nat \<Rightarrow> real list" where
  "column ps j = map (\<lambda>p. p ! j) ps"

definition mean_list :: "real list \<Rightarrow> real" where
  "mean_list vs = sum_list vs / real (length vs)"

definition std_list :: "real list \<Rightarrow> real" where
  "std_list vs = sqrt (mean_list (map (\<lambda>v. (abs (v - mean_list vs))\<^sup>2) vs))"

definition np_mean_axis0 :: "real list list \<Rightarrow> stat" where
  "np_mean_axis0 ps =
     (case ps of [] \<Rightarrow> NaN
      | p # _ \<Rightarrow> Arr (map (\<lambda>j. mean_list (column ps j)) [0..<length p]))"

definition np_std_axis0 :: "real list list \<Rightarrow> stat" where
  "np_std_axis0 ps =
     (case ps of [] \<Rightarrow> NaN
      | p # _ \<Rightarrow> Arr (map (\<lambda>j. std_list (column ps j)) [0..<length p]))"

fun times_scalar :: "stat \<Rightarrow> real \<Rightarrow> stat" where
  "times_scalar NaN f = NaN"
| "times_scalar (Arr v) f = Arr (map (\<lambda>y. y * f) v)"

text \<open>The loop \<open>for x in Xp_\<close>, with the two result lists and the number of passes made.
  (The progress bar printed after each row is not recorded.)\<close>

fun predict_loop ::
  "forward \<Rightarrow> nat \<Rightarrow> int \<Rightarrow> real \<Rightarrow> real list list \<Rightarrow> nat \<Rightarrow> stat list \<Rightarrow> stat list
     \<Rightarrow> stat list \<times> stat list \<times> nat" where
  "predict_loop reg out k sf [] c predicted uncertainty = (predicted, uncertainty, c)"
| "predict_loop reg out k sf (x # xs) c predicted uncertainty =
     (let (predictions, c') = draw_predictions reg out x (nat k) c [];
          p_mean = times_scalar (np_mean_axis0 predictions) sf;
          p_stdv = times_scalar (np_std_axis0 predictions) sf
      in predict_loop reg out k sf xs c' (predicted @ [p_mean]) (uncertainty @ [p_stdv]))"

definition predict_rows ::
  "forward \<Rightarrow> nat \<Rightarrow> int \<Rightarrow> real \<Rightarrow> real list list \<Rightarrow> stat list \<times> stat list \<times> nat" where
  "predict_rows reg out k sf Xp = predict_loop reg out k sf Xp 0 [] []"

section \<open>predict\_impl: the output table (predict.py, lines 186--247)\<close>

text \<open>
  \<open>np.squeeze\<close> of the list of per-row results.  \<open>N\<close> rows of \<open>1 \<times> out\<close> arrays make an
  array of shape \<open>(N, 1, out)\<close>, and every axis of length one is removed; \<open>N\<close> scalars make
  an array of shape \<open>(N)\<close>.  What is left has zero, one or two axes.
\<close>

datatype ndarray = Dim0 cell | Dim1 "cell list" | Dim2 "cell list list"

fun arr_of :: "stat \<Rightarrow> real list option" where
  "arr_of NaN = None"
| "arr_of (Arr v) = Some v"

fun those_arrs :: "stat list \<Rightarrow> real list list option" where
  "those_arrs [] = Some []"
| "those_arrs (s # ss) =
     (case arr_of s of None \<Rightarrow> None
      | Some v \<Rightarrow> (case those_arrs ss of None \<Rightarrow> None | Some vs \<Rightarrow> Some (v # vs)))"

definition np_squeeze :: "stat list \<Rightarrow> py_error + ndarray" where
  "np_squeeze ps =
     (if ps = [] then Inr (Dim1 [])
      else if list_all (\<lambda>p. p = NaN) ps
      then (if length ps = 1 then Inr (Dim0 NaNcell) else Inr (Dim1 (map (\<lambda>_. NaNcell) ps)))
      else case those_arrs ps of
             None \<Rightarrow> Inl (ValueError ''inhomogeneous shape'')
           | Some vs \<Rightarrow>
               (let out = length (hd vs)
                in if \<not> list_all (\<lambda>v. length v = out) vs
                   then Inl (ValueError ''inhomogeneous shape'')
                   else if length vs = 1
                   then (if out = 1 then Inr (Dim0 (Num (hd (hd vs))))
                         else Inr (Dim1 (map Num (hd vs))))
                   else (if out = 1 then Inr (Dim1 (map (\<lambda>v. Num (hd v)) vs))
                         else Inr (Dim2 (map (map Num) vs)))))"

text \<open>\<open>pd.DataFrame(data, columns=names)\<close>: a one-axis array is a single column, a
  two-axis array a table; the number of names must be the number of columns, and an
  array without axes is refused.\<close>

definition DataFrame_of :: "ndarray \<Rightarrow> string list \<Rightarrow> py_error + dataframe" where
  "DataFrame_of data names =
     (case data of
        Dim0 _ \<Rightarrow> Inl (ValueError ''Must pass 2-d input. shape=()'')
      | Dim1 xs \<Rightarrow>
          (if length names = 1
           then Inr \<lparr> index_name = None, index_vals = range_index (length xs),
                      columns = [(hd names, xs)] \<rparr>
           else Inl (ValueError ''Shape of passed values does not match the indices''))
      | Dim2 rows \<Rightarrow>
          (if list_all (\<lambda>r. length r = length names) rows
           then Inr \<lparr> index_name = None, index_vals = range_index (length rows),
                      columns = map (\<lambda>j. (names ! j, map (\<lambda>r. r ! j) rows)) [0..<length names] \<rparr>
           else Inl (ValueError ''Shape of passed values does not match the indices'')))"

text \<open>The column names of lines 192--199 and 204--211.\<close>

definition pred_column_names :: "string \<Rightarrow> nat \<Rightarrow> string list" where
  "pred_column_names key output_size =
     map (\<lambda>i. ''pred_'' @ key @ ''_'' @ str_nat i) [0..<output_size]"

definition std_column_names :: "string \<Rightarrow> nat \<Rightarrow> string list" where
  "std_column_names key output_size =
     map (\<lambda>i. ''std_'' @ key @ ''_'' @ str_nat i) [0..<output_size]"

text \<open>
  Lines 186--247: the two frames of results, the copy of the input frame with its index
  turned into a column, the two concatenations, the removal of the columns that the input
  key selects, and the index name of the exported table.  The result is the table that
  \<open>to_csv\<close> writes.
\<close>

definition assemble_output ::
  "dataframe \<Rightarrow> stat list \<Rightarrow> stat list \<Rightarrow> nat \<Rightarrow> string \<Rightarrow> string \<Rightarrow> py_error + dataframe" where
  "assemble_output df predicted uncertainty output_size out_key in_key =
     and_then (np_squeeze predicted) (\<lambda>predicted'.
     and_then (DataFrame_of predicted' (pred_column_names out_key output_size)) (\<lambda>pdf.
     and_then (np_squeeze uncertainty) (\<lambda>uncertainty'.
     and_then (DataFrame_of uncertainty' (std_column_names out_key output_size)) (\<lambda>udf.
     and_then (reset_index_keep df) (\<lambda>output_df.
        (let pred_df = concat_axis1 (reset_index_drop pdf) (reset_index_drop udf);
             output_df = concat_axis1 (reset_index_drop output_df) (reset_index_drop pred_df);
             output_df = drop_columns (column_names (filter_regex in_key output_df)) output_df
         in Inr (output_df\<lparr>index_name := Some ''index''\<rparr>)))))))"

section \<open>predict\_impl as a whole (predict.py, lines 23--249)\<close>

text \<open>
  The steps above in the order of the source.  What the missing \<open>loadData\<close> returns for
  the latent file (the latent matrix and the data frame, or the exception it raises) and
  the checkpoint that \<open>torch.load\<close> returns are inputs, as is the stochastic forward pass
  \<open>reg\<close> of the loaded network.  Lines printed with \<open>print\<close> are not recorded; the
  look-ups that those lines make in the checkpoint are, since a missing key raises, and
  so is \<open>np.amin\<close>, which refuses an empty matrix.  The run ends with \<open>sys.exit()\<close>,
  with an exception, or with the table written to the output file.
\<close>

datatype outcome = Exited | Raised py_error | Written string dataframe

definition metadata_keys :: "string list" where
  "metadata_keys = [''epochs'', ''batch_size'', ''learning_rate'', ''lambda_fit_loss'', ''elbo_kld'']"

definition missing_metadata :: "checkpoint \<Rightarrow> string list" where
  "missing_metadata trained_network = filter (\<lambda>k. trained_network k = None) metadata_keys"

definition predict_impl ::
  "(string \<Rightarrow> bool) \<Rightarrow> datetime \<Rightarrow> (py_error + real list list \<times> dataframe) \<Rightarrow> bool
     \<Rightarrow> (regressor \<Rightarrow> (string \<rightharpoonup> tensor) \<Rightarrow> bool) \<Rightarrow> checkpoint \<Rightarrow> forward
     \<Rightarrow> predict_args \<Rightarrow> string \<Rightarrow> event list \<times> outcome" where
  "predict_impl isfile now loaded cuda accepts trained_network reg a output_layer_type =
     (case predict_prelude isfile now a of
        (ev, SysExit) \<Rightarrow> (ev, Exited)
      | (ev, Proceeds c) \<Rightarrow>
          (case loaded of
             Inl e \<Rightarrow> (ev, Raised e)
           | Inr (np_latent, df) \<Rightarrow>
               (let ev1 = ev @ fst (console_info
                            [''Loading pretrained network ['', output_network_filename a, '']'']);
                    (ev2, built) = build_regressor cuda accepts df trained_network output_layer_type
                in case built of
                     Inl e \<Rightarrow> (ev1 @ ev2, Raised e)
                   | Inr r \<Rightarrow>
                       if missing_metadata trained_network \<noteq> []
                       then (ev1 @ ev2, Raised (KeyError (hd (missing_metadata trained_network))))
                       else if concat np_latent = []
                       then (ev1 @ ev2, Raised (ValueError
                              ''zero-size array to reduction operation minimum which has no identity''))
                       else (let (predicted, uncertainty, passes) =
                                   predict_rows reg (output_dim r) (k_samples c) (scaling_factor c)
                                     np_latent
                             in case assemble_output df predicted uncertainty (output_dim r)
                                       (output_key c) (input_key c) of
                                  Inl e \<Rightarrow> (ev1 @ ev2, Raised e)
                                | Inr output_df \<Rightarrow>
                                    (ev1 @ ev2
                                       @ fst (console_info [''Exporting predictions to:'', output_name c])
                                       @ fst (console_info [''Done!'']),
                                     Written (output_name c) output_df)))))"

section \<open>bnn\_geotech.py: load\_dataset (lines 22--35)\<close>

text \<open>
  \<open>pd.read_csv(filename, index_col=0)\<close> is an input of the model: the frame a readable
  file parses to, or nothing.  Python returns the pair \<open>1, n_latents\<close>; its first
  component is an integer, where the callers expect a dataset, so the type of the first
  component has both.  (Line 32 lacks the comma between its two arguments; it is read as
  the call with two arguments that it stands for.)
\<close>

datatype dataset = IntValue int | Dataset dataframe

definition load_dataset ::
  "(string \<Rightarrow> dataframe option) \<Rightarrow> string \<Rightarrow> string
     \<Rightarrow> event list \<times> (py_error + dataset \<times> nat)" where
  "load_dataset read_csv filename latent_name_prefix =
     (let e0 = fst (console_info [''load_dataset called for: '', filename])
      in case read_csv filename of
           None \<Rightarrow> (e0, Inl (FileNotFoundError filename))
         | Some df \<Rightarrow>
             (let df_latent = filter_regex latent_name_prefix df;
                  n_latents = length (columns df_latent);
                  e1 = fst (console_info [''Latent dimensions: '', str_nat n_latents])
              in (e0 @ e1, Inr (IntValue 1, n_latents))))"

section \<open>bnn\_geotech.py: BayesianRegressor (lines 41--54)\<close>

text \<open>
  \<open>BayesianLinear\<close> comes from the blitz library: a fully-connected layer that draws its
  weights and biases anew at every call and returns \<open>x W\<^sup>T + b\<close>.  The draws are
  inputs of the model: \<open>weight_sample c r k\<close> and \<open>bias_sample c r\<close> are the weight from
  input \<open>k\<close> to output \<open>r\<close> and the bias of output \<open>r\<close> drawn at call number \<open>c\<close>.
  An input of the wrong length is a shape error.
\<close>

record blayer =
  in_features :: nat
  out_features :: nat
  weight_sample :: "nat \<Rightarrow> nat \<Rightarrow> nat \<Rightarrow> real"
  bias_sample :: "nat \<Rightarrow> nat \<Rightarrow> real"

definition BayesianLinear ::
  "(nat \<Rightarrow> nat \<Rightarrow> nat \<Rightarrow> real) \<Rightarrow> (nat \<Rightarrow> nat \<Rightarrow> real) \<Rightarrow> nat \<Rightarrow> nat \<Rightarrow> blayer" where
  "BayesianLinear w b n_in n_out =
     \<lparr> in_features = n_in, out_features = n_out, weight_sample = w, bias_sample = b \<rparr>"

definition layer_call :: "blayer \<Rightarrow> nat \<Rightarrow> real list \<Rightarrow> py_error + real list" where
  "layer_call l c x =
     (if length x \<noteq> in_features l
      then Inl (RuntimeError ''mat1 and mat2 shapes cannot be multiplied'')
      else Inr (map (\<lambda>r. (\<Sum>k\<leftarrow>[0..<in_features l]. x ! k * weight_sample l c r k)
                          + bias_sample l c r)
                 [0..<out_features l]))"

definition sigmoid :: "real \<Rightarrow> real" where
  "sigmoid v = 1 / (1 + exp (- v))"

record bayesian_regressor =
  blinear1 :: blayer
  sigmoid1 :: "real \<Rightarrow> real"
  blinear2 :: blayer

text \<open>The constructor; the two pairs of draws are those of the two new layers.\<close>

definition BayesianRegressor ::
  "(nat \<Rightarrow> nat \<Rightarrow> nat \<Rightarrow> real) \<times> (nat \<Rightarrow> nat \<Rightarrow> real)
     \<Rightarrow> (nat \<Rightarrow> nat \<Rightarrow> nat \<Rightarrow> real) \<times> (nat \<Rightarrow> nat \<Rightarrow> real)
     \<Rightarrow> nat \<Rightarrow> nat \<Rightarrow> bayesian_regressor" where
  "BayesianRegressor d1 d2 inp outp =
     \<lparr> blinear1 = BayesianLinear (fst d1) (snd d1) inp 128,
       sigmoid1 = sigmoid,
       blinear2 = BayesianLinear (fst d2) (snd d2) 128 outp \<rparr>"

definition forward :: "bayesian_regressor \<Rightarrow> nat \<Rightarrow> real list \<Rightarrow> py_error + real list" where
  "forward self c x =
     and_then (layer_call (blinear1 self) c x) (\<lambda>x1.
     and_then (Inr (map (sigmoid1 self) x1)) (\<lambda>x2.
       layer_call (blinear2 self) c x2))"

section \<open>bnn\_geotech.py: evaluate\_regression (lines 57--70)\<close>

text \<open>
  A tensor is kept as the list of its entries; the predictions of one pass and the
  targets have one shape (in \<open>main\<close> both are \<open>N \<times> 1\<close>), so entry \<open>j\<close> of one is compared
  with entry \<open>j\<close> of the other; targets of another length are a size error (broadcasting
  is not modelled).  \<open>regressor c X\<close> is the prediction of call number \<open>c\<close>.
  \<open>torch.stack\<close> refuses an empty list and tensors of different sizes.  \<open>torch.std\<close>
  divides by one less than the number of samples and is NaN for a single sample; a
  comparison with NaN is false; the mean of no entries is NaN.  A value that may be NaN
  is an option.
\<close>

definition torch_stack :: "real list list \<Rightarrow> py_error + real list list" where
  "torch_stack ts =
     (case ts of
        [] \<Rightarrow> Inl (RuntimeError ''stack expects a non-empty TensorList'')
      | t # _ \<Rightarrow> if list_all (\<lambda>u. length u = length t) ts then Inr ts
                 else Inl (RuntimeError ''stack expects each tensor to be equal size''))"

definition torch_std :: "real list \<Rightarrow> real option" where
  "torch_std vs =
     (if length vs \<le> 1 then None
      else Some (sqrt (sum_list (map (\<lambda>v. (v - mean_list vs)\<^sup>2) vs) / real (length vs - 1))))"

definition float_mean :: "bool list \<Rightarrow> real option" where
  "float_mean bs =
     (if bs = [] then None
      else Some (real (length (filter (\<lambda>b. b) bs)) / real (length bs)))"

definition le_nan :: "real option \<Rightarrow> real option \<Rightarrow> bool" where
  "le_nan a b = (case (a, b) of (Some u, Some v) \<Rightarrow> u \<le> v | _ \<Rightarrow> False)"

definition evaluate_regression ::
  "(nat \<Rightarrow> 'x \<Rightarrow> real list) \<Rightarrow> 'x \<Rightarrow> real list \<Rightarrow> int \<Rightarrow> real
     \<Rightarrow> py_error + (real option \<times> real option \<times> real option)" where
  "evaluate_regression regressor X y samples std_multiplier =
     and_then (torch_stack (map (\<lambda>i. regressor i X) [0..<nat samples])) (\<lambda>preds.
       (let n = length (hd preds);
            means = map (\<lambda>j. mean_list (column preds j)) [0..<n];
            stds = map (\<lambda>j. torch_std (column preds j)) [0..<n];
            ci_upper = map2 (\<lambda>m s. map_option (\<lambda>s. m + std_multiplier * s) s) means stds;
            ci_lower = map2 (\<lambda>m s. map_option (\<lambda>s. m - std_multiplier * s) s) means stds
        in if length y \<noteq> n
           then Inl (RuntimeError ''The size of tensor a must match the size of tensor b'')
           else (let below = map2 (\<lambda>l t. le_nan l (Some t)) ci_lower y;
                     above = map2 (\<lambda>u t. le_nan (Some t) u) ci_upper y;
                     ic_acc = map2 (\<lambda>a b. a \<and> b) below above
                 in Inr (float_mean ic_acc, float_mean above, float_mean below))))"

section \<open>bnn\_geotech.py: main and its training loop (lines 74--134)\<close>

text \<open>
  \<open>main\<close> loads the dataset and then calls \<open>sys.exit(0)\<close> (line 82); the lines after it,
  the training loop among them, are not reached.
\<close>

definition main :: "(string \<Rightarrow> dataframe option) \<Rightarrow> event list \<times> (py_error + unit run)" where
  "main read_csv =
     (let dataset_filename = ''data/koyo-20181121-model-21-output.xls'';
          e0 = fst (console_info [''Geotech landability/measurability predictor from low-res acoustics. Uses Bayesian Neural Networks as predictive engine'']);
          e1 = fst (console_info [''Loading dataset: '' @ dataset_filename]);
          (e2, loaded) = load_dataset read_csv dataset_filename ''latent_''
      in case loaded of
           Inl e \<Rightarrow> (e0 @ e1 @ e2, Inl e)
         | Inr (Xd, yd) \<Rightarrow> (e0 @ e1 @ e2, Inr SysExit))"

text \<open>
  The training loop, lines 112--134.  The tensor library and blitz are inputs of the
  model: \<open>fit_loss p c b\<close> is \<open>criterion(self(inputs), labels)\<close> for the batch \<open>b\<close> with
  the parameters \<open>p\<close> at the stochastic pass number \<open>c\<close>, \<open>kl_divergence p c\<close> is
  \<open>nn_kl_divergence()\<close> after that pass, \<open>backward\<close> adds the gradient of a loss (a
  function of the parameters) at the current parameters to the stored gradients,
  \<open>zero_grad\<close> clears them and \<open>adam_step\<close> is one update of the optimizer.
\<close>

record ('p, 'g, 'o, 'b) torch =
  fit_loss :: "'p \<Rightarrow> nat \<Rightarrow> 'b \<Rightarrow> real"
  kl_divergence :: "'p \<Rightarrow> nat \<Rightarrow> real"
  zero_grad :: "'g \<Rightarrow> 'g"
  backward :: "('p \<Rightarrow> real) \<Rightarrow> 'p \<Rightarrow> 'g \<Rightarrow> 'g"
  adam_step :: "'o \<Rightarrow> 'p \<Rightarrow> 'g \<Rightarrow> 'o \<times> 'p"

record ('p, 'g, 'o) trainer =
  params :: 'p
  grads :: 'g
  optimizer :: 'o
  draws :: nat
  iteration :: nat

text \<open>
  \<open>sample_elbo\<close> of blitz's \<open>variational_estimator\<close>: \<open>sample_nbr\<close> times a forward pass,
  the criterion and the KL divergence times the complexity-cost weight are added to the
  loss, which is then divided by \<open>sample_nbr\<close>.
\<close>

fun elbo_loop ::
  "('p, 'g, 'o, 'b) torch \<Rightarrow> 'p \<Rightarrow> 'b \<Rightarrow> real \<Rightarrow> nat \<Rightarrow> nat \<Rightarrow> real \<Rightarrow> real" where
  "elbo_loop T p b w 0 c loss = loss"
| "elbo_loop T p b w (Suc m) c loss =
     elbo_loop T p b w m (Suc c) (loss + fit_loss T p c b + kl_divergence T p c * w)"

definition sample_elbo ::
  "('p, 'g, 'o, 'b) torch \<Rightarrow> 'p \<Rightarrow> nat \<Rightarrow> 'b \<Rightarrow> nat \<Rightarrow> real \<Rightarrow> real" where
  "sample_elbo T p c b sample_nbr complexity_cost_weight =
     elbo_loop T p b complexity_cost_weight sample_nbr c 0 / real sample_nbr"

text \<open>One pass of the inner loop body for a batch; \<open>n_train\<close> is \<open>X_train.shape[0]\<close>.
  Every hundredth iteration \<open>evaluate_regression\<close> makes 25 more passes (and prints).\<close>

definition train_batch ::
  "('p, 'g, 'o, 'b) torch \<Rightarrow> nat \<Rightarrow> ('p, 'g, 'o) trainer \<Rightarrow> 'b
     \<Rightarrow> py_error + ('p, 'g, 'o) trainer" where
  "train_batch T n_train s b =
     (let g0 = zero_grad T (grads s)
      in if n_train = 0 then Inl ZeroDivisionError
         else (let loss = (\<lambda>p. sample_elbo T p (draws s) b 3 (1 / real n_train));
                   g1 = backward T loss (params s) g0;
                   (o1, p1) = adam_step T (optimizer s) (params s) g1;
                   iteration1 = iteration s + 1
               in Inr \<lparr> params = p1, grads = g1, optimizer = o1,
                         draws = draws s + 3 + (if iteration1 mod 100 = 0 then 25 else 0),
                         iteration = iteration1 \<rparr>))"

fun train_batches ::
  "('p, 'g, 'o, 'b) torch \<Rightarrow> nat \<Rightarrow> ('p, 'g, 'o) trainer \<Rightarrow> 'b list
     \<Rightarrow> py_error + ('p, 'g, 'o) trainer" where
  "train_batches T n_train s [] = Inr s"
| "train_batches T n_train s (b # bs) =
     and_then (train_batch T n_train s b) (\<lambda>s1. train_batches T n_train s1 bs)"

text \<open>\<open>for epoch in range(100)\<close>: \<open>m\<close> epochs are left, \<open>epoch\<close> is the current one, and
  the shuffling loader yields the batches \<open>dataloader_train epoch\<close> in that epoch.\<close>

fun train_epochs ::
  "('p, 'g, 'o, 'b) torch \<Rightarrow> nat \<Rightarrow> (nat \<Rightarrow> 'b list) \<Rightarrow> nat \<Rightarrow> nat \<Rightarrow> ('p, 'g, 'o) trainer
     \<Rightarrow> py_error + ('p, 'g, 'o) trainer" where
  "train_epochs T n_train dataloader_train 0 epoch s = Inr s"
| "train_epochs T n_train dataloader_train (Suc m) epoch s =
     and_then (train_batches T n_train s (dataloader_train epoch))
       (\<lambda>s1. train_epochs T n_train dataloader_train m (Suc epoch) s1)"

definition training_loop ::
  "('p, 'g, 'o, 'b) torch \<Rightarrow> nat \<Rightarrow> (nat \<Rightarrow> 'b list) \<Rightarrow> ('p, 'g, 'o) trainer
     \<Rightarrow> py_error + ('p, 'g, 'o) trainer" where
  "training_loop T n_train dataloader_train s =
     train_epochs T n_train dataloader_train 100 0 (s\<lparr>iteration := 0\<rparr>)"

section \<open>Monte Carlo sampling in closed form\<close>

text \<open>The \<open>m\<close> passes on row \<open>x\<close> that start at pass number \<open>c\<close>, and the two values
  appended for row \<open>i\<close> when the loop starts at pass number \<open>c\<close>.\<close>

definition pass_samples :: "forward \<Rightarrow> nat \<Rightarrow> nat \<Rightarrow> real list \<Rightarrow> nat \<Rightarrow> real list list" where
  "pass_samples reg out c x m = map (\<lambda>n. forward_pass reg out (c + n) x) [0..<m]"

definition row_mean :: "forward \<Rightarrow> nat \<Rightarrow> int \<Rightarrow> real \<Rightarrow> real list list \<Rightarrow> nat \<Rightarrow> nat \<Rightarrow> stat" where
  "row_mean reg out k sf Xp c i =
     times_scalar (np_mean_axis0 (pass_samples reg out (c + i * nat k) (Xp ! i) (nat k))) sf"

definition row_stdv :: "forward \<Rightarrow> nat \<Rightarrow> int \<Rightarrow> real \<Rightarrow> real list list \<Rightarrow> nat \<Rightarrow> nat \<Rightarrow> stat" where
  "row_stdv reg out k sf Xp c i =
     times_scalar (np_std_axis0 (pass_samples reg out (c + i * nat k) (Xp ! i) (nat k))) sf"

section \<open>The name of the index column in the output table\<close>

text \<open>The name under which \<open>reset_index(drop=False)\<close> stores the index.\<close>

definition index_column_name :: "dataframe \<Rightarrow> string" where
  "index_column_name df =
     (case index_name df of
        Some n \<Rightarrow> n
      | None \<Rightarrow> if ''index'' \<in> set (column_names df) then ''level_0'' else ''index'')"

section \<open>Coverage of a confidence interval, stated on index sets\<close>

text \<open>The mean and the standard deviation (with \<open>S - 1\<close> in the denominator) of the
  samples \<open>s 0, \<dots>, s (S - 1)\<close>, and the fraction of the indices below \<open>n\<close> that
  satisfy \<open>P\<close>.\<close>

definition mc_mean :: "(nat \<Rightarrow> real) \<Rightarrow> nat \<Rightarrow> real" where
  "mc_mean s S = (\<Sum>i<S. s i) / real S"

definition mc_std :: "(nat \<Rightarrow> real) \<Rightarrow> nat \<Rightarrow> real" where
  "mc_std s S = sqrt ((\<Sum>i<S. (s i - mc_mean s S)\<^sup>2) / real (S - 1))"

definition fraction :: "nat \<Rightarrow> (nat \<Rightarrow> bool) \<Rightarrow> real" where
  "fraction n P = real (card {j. j < n \<and> P j}) / real n"

section \<open>The training step as the specification describes it\<close>

text \<open>
  The sampled ELBO loss of a batch: the average over three stochastic passes of the fit
  plus the KL divergence weighted by one over the number of training examples; and the
  step that clears the gradients, backpropagates that loss and makes one update.
\<close>

definition elbo_average ::
  "('p, 'g, 'o, 'b) torch \<Rightarrow> nat \<Rightarrow> nat \<Rightarrow> 'b \<Rightarrow> 'p \<Rightarrow> real" where
  "elbo_average T n_train c b p =
     (\<Sum>i<3. fit_loss T p (c + i) b + kl_divergence T p (c + i) * (1 / real n_train)) / 3"

definition batch_update ::
  "('p, 'g, 'o, 'b) torch \<Rightarrow> nat \<Rightarrow> ('p, 'g, 'o) trainer \<Rightarrow> 'b \<Rightarrow> ('p, 'g, 'o) trainer" where
  "batch_update T n_train s b =
     (let g = backward T (elbo_average T n_train (draws s) b) (params s) (zero_grad T (grads s));
          u = adam_step T (optimizer s) (params s) g
      in \<lparr> params = snd u, grads = g, optimizer = fst u,
           draws = draws s + 3 + (if Suc (iteration s) mod 100 = 0 then 25 else 0),
           iteration = Suc (iteration s) \<rparr>)"

section \<open>Example inputs\<close>

definition example_now :: datetime where
  "example_now = \<lparr> year = 2022, month = 11, day = 5, hour = 9, minute = 30, second = 7 \<rparr>"

definition falsy_args :: predict_args where
  "falsy_args =
     \<lparr> latent_csv = ''latents.csv'', latent_key = Some [], target_key = None,
       output_csv = [], output_network_filename = ''net.pth'', num_samples = Some 0,
       scale_factor = Some 0 \<rparr>"

definition missing_latent_args :: predict_args where
  "missing_latent_args =
     \<lparr> latent_csv = ''missing.csv'', latent_key = Some ''latent_'', target_key = Some ''depth'',
       output_csv = ''out.csv'', output_network_filename = ''net.pth'', num_samples = Some 10,
       scale_factor = Some 2 \<rparr>"

definition example_reg :: forward where
  "example_reg c x j = x ! 0 + 2 * real (c mod 2) + real j"

definition example_draws1 :: "(nat \<Rightarrow> nat \<Rightarrow> nat \<Rightarrow> real) \<times> (nat \<Rightarrow> nat \<Rightarrow> real)" where
  "example_draws1 = (\<lambda>c r k. 0, \<lambda>c r. 0)"

definition example_draws2 :: "(nat \<Rightarrow> nat \<Rightarrow> nat \<Rightarrow> real) \<times> (nat \<Rightarrow> nat \<Rightarrow> real)" where
  "example_draws2 = (\<lambda>c r k. 2, \<lambda>c r. real c)"

definition example_regressor :: "nat \<Rightarrow> unit \<Rightarrow> real list" where
  "example_regressor i X = [real i, 10]"

definition example_csv :: dataframe where
  "example_csv =
     \<lparr> index_name = Some ''id'',
       index_vals = [Txt ''a'', Txt ''b''],
       columns = [(''northing'', [Num 10, Num 20]),
                  (''latent_0'', [Num 1, Num 3]),
                  (''latent_1'', [Num 2, Num 4])] \<rparr>"

definition example_checkpoint :: checkpoint where
  "example_checkpoint =
     [''epochs'' \<mapsto> Meta 100,
      ''model_state_dict'' \<mapsto> StateDict [''linear_output.weight'' \<mapsto> [[1, 2, 3]]]]"

definition example_files :: "string \<Rightarrow> bool" where
  "example_files p = (p = ''latents.csv'' \<or> p = ''net.pth'')"

definition example_full_checkpoint :: checkpoint where
  "example_full_checkpoint =
     [''epochs'' \<mapsto> Meta 100, ''batch_size'' \<mapsto> Meta 16, ''learning_rate'' \<mapsto> Meta (1 / 100),
      ''lambda_fit_loss'' \<mapsto> Meta 1, ''elbo_kld'' \<mapsto> Meta 1,
      ''model_state_dict'' \<mapsto> StateDict [''linear_output.weight'' \<mapsto> [[1, 2, 3]]]]"

definition example_latents :: "real list list" where
  "example_latents = [[1, 2], [3, 4]]"

definition constant_reg :: forward where
  "constant_reg c x j = x ! 0 + x ! 1"

definition example_nan_csv :: dataframe where
  "example_nan_csv =
     \<lparr> index_name = Some ''id'',
       index_vals = [Txt ''a'', Txt ''b''],
       columns = [(''northing'', [Num 10, Num 20]),
                  (''latent_0'', [Num 1, NaNcell]),
                  (''latent_1'', [Num 2, Num 4])] \<rparr>"

definition example_read_csv :: "string \<Rightarrow> dataframe option" where
  "example_read_csv f = (if f = ''data.csv'' then Some example_nan_csv else None)"

definition depth_args :: predict_args where
  "depth_args =
     \<lparr> latent_csv = ''latents.csv'', latent_key = Some ''h'', target_key = Some ''depth'',
       output_csv = ''out.csv'', output_network_filename = ''net.pth'', num_samples = Some 2,
       scale_factor = Some 1 \<rparr>"

definition latent_heat_args :: predict_args where
  "latent_heat_args =
     \<lparr> latent_csv = ''latents.csv'', latent_key = Some [], target_key = Some ''latent_heat'',
       output_csv = ''out.csv'', output_network_filename = ''net.pth'', num_samples = Some 2,
       scale_factor = Some 1 \<rparr>"

definition example_torch :: "(real, real, unit, real) torch" where
  "example_torch =
     \<lparr> fit_loss = (\<lambda>p c b. (p - b)\<^sup>2), kl_divergence = (\<lambda>p c. p\<^sup>2),
       zero_grad = (\<lambda>g. 0), backward = (\<lambda>loss p g. g + loss p),
       adam_step = (\<lambda>u p g. ((), p - g / 10)) \<rparr>"

definition example_trainer :: "(real, real, unit) trainer" where
  "example_trainer = \<lparr> params = 1, grads = 5, optimizer = (), draws = 0, iteration = 7 \<rparr>"

section \<open>Properties of the file checks and the defaults\<close>

lemma check_latent_csv_alive: "snd (check_latent_csv isfile a) = True"
  by (simp add: check_latent_csv_def console_info_def console_error_def)

lemma prelude_proceeds:
  "isfile (output_network_filename a) \<Longrightarrow>
   snd (predict_prelude isfile now a) = Proceeds (make_config now a)"
  by (simp add: predict_prelude_def check_latent_csv_def check_network_def console_info_def
      console_error_def console_warn_def console_quit_def Let_def split: prod.splits)

text \<open>A missing network file does stop the run, and the last line printed is the reason.\<close>

lemma missing_network_exits:
  "\<not> isfile (output_network_filename a) \<Longrightarrow>
   snd (predict_prelude isfile now a) = SysExit
   \<and> last (fst (predict_prelude isfile now a))
       = Quit (''No pre-trained network found at:  '' @ output_network_filename a)"
  by (simp add: predict_prelude_def check_latent_csv_def check_network_def console_info_def
      console_error_def console_quit_def Let_def split: prod.splits)

lemma stamp_example: "strftime_stamp example_now = ''20221105_093007''"
  by (simp add: strftime_stamp_def example_now_def zfill_def str_nat.simps digit_char_def)

text \<open>
  C3.  The claim: a missing latent CSV file and a missing network file each print a
  message and end the process at once.  The run below has no file \<open>missing.csv\<close> and has
  the network file: the error line is printed, and the run goes on through the network
  check, the output-file check and the defaults up to the call that loads the latent
  file.  (\<open>missing_network_exits\<close> is the other half, which holds.)
\<close>

theorem missing_latent_csv_continues:
  "predict_prelude (\<lambda>p. p = ''net.pth'') example_now missing_latent_args =
     ([Info ''Bayesian NN inference module. Predicting hi-res terrain maps from lo-res features'',
       Info ''Prediction mode enabled. Looking for pretained network and input latent vectors'',
       Error ''Latent input file [missing.csv] not found. Please check the provided input path (-l, --latent)'',
       Info ''Pre-trained network file [ net.pth ] found'',
       Info ''Output file:  out.csv'',
       Info ''Loading latent input [ missing.csv ]''],
      Proceeds \<lparr> output_name = ''out.csv'', k_samples = 10, output_key = ''depth'',
                 input_key = ''latent_'', scaling_factor = 2 \<rparr>)"
  by (simp add: predict_prelude_def check_latent_csv_def check_network_def console_info_def
      console_error_def console_warn_def console_quit_def missing_latent_args_def
      make_config_def default_output_csv_def default_k_samples_def default_output_key_def
      default_input_key_def default_scaling_factor_def)

text \<open>
  C9.  Once the network file is found, line 95 is reached with a configuration in which
  every falsy argument has its default: 20 samples for \<open>None\<close> or 0, the factor 1 for
  \<open>None\<close> or 0, the key \<open>predicted\<close> and the prefix \<open>latent_\<close> for \<open>None\<close> or the empty
  string, and the time stamp followed by \<open>_bnn_predictions.csv\<close> for the empty output name.
\<close>

theorem defaults_applied:
  assumes "isfile (output_network_filename a)"
  shows "\<exists>ev c. predict_prelude isfile now a = (ev, Proceeds c)
    \<and> (num_samples a = None \<or> num_samples a = Some 0 \<longrightarrow> k_samples c = 20)
    \<and> (scale_factor a = None \<or> scale_factor a = Some 0 \<longrightarrow> scaling_factor c = 1)
    \<and> (target_key a = None \<or> target_key a = Some [] \<longrightarrow> output_key c = ''predicted'')
    \<and> (latent_key a = None \<or> latent_key a = Some [] \<longrightarrow> input_key c = ''latent_'')
    \<and> (output_csv a = [] \<longrightarrow> output_name c = strftime_stamp now @ ''_bnn_predictions.csv'')"
proof -
  let ?c = "make_config now a"
  have "snd (predict_prelude isfile now a) = Proceeds ?c"
    using assms by (rule prelude_proceeds)
  then have "predict_prelude isfile now a = (fst (predict_prelude isfile now a), Proceeds ?c)"
    by (metis prod.collapse)
  moreover have "num_samples a = None \<or> num_samples a = Some 0 \<longrightarrow> k_samples ?c = 20"
    by (auto simp: make_config_def default_k_samples_def)
  moreover have "scale_factor a = None \<or> scale_factor a = Some 0 \<longrightarrow> scaling_factor ?c = 1"
    by (auto simp: make_config_def default_scaling_factor_def)
  moreover have "target_key a = None \<or> target_key a = Some [] \<longrightarrow> output_key ?c = ''predicted''"
    by (auto simp: make_config_def default_output_key_def)
  moreover have "latent_key a = None \<or> latent_key a = Some [] \<longrightarrow> input_key ?c = ''latent_''"
    by (auto simp: make_config_def default_input_key_def)
  moreover have "output_csv a = [] \<longrightarrow> output_name ?c = strftime_stamp now @ ''_bnn_predictions.csv''"
    by (auto simp: make_config_def default_output_csv_def)
  ultimately show ?thesis by blast
qed

theorem defaults_applied_witness:
  "\<exists>ev c. predict_prelude (\<lambda>p. p = ''net.pth'') example_now falsy_args = (ev, Proceeds c)
     \<and> k_samples c = 20 \<and> scaling_factor c = 1 \<and> output_key c = ''predicted''
     \<and> input_key c = ''latent_'' \<and> output_name c = ''20221105_093007_bnn_predictions.csv''"
  using defaults_applied [of "\<lambda>p. p = ''net.pth''" falsy_args example_now]
  by (simp add: falsy_args_def stamp_example)

section \<open>Properties of the Monte Carlo sampling\<close>

lemma draw_predictions_eq:
  "draw_predictions reg out x m c acc = (acc @ pass_samples reg out c x m, c + m)"
proof (induction m arbitrary: c acc)
  case 0
  then show ?case by (simp add: pass_samples_def)
next
  case (Suc m)
  have "pass_samples reg out c x (Suc m) = forward_pass reg out c x # pass_samples reg out (Suc c) x m"
    unfolding pass_samples_def by (simp add: map_upt_Suc del: upt_Suc)
  with Suc show ?case by simp
qed

lemma predict_loop_eq:
  "predict_loop reg out k sf Xp c P U =
     (P @ map (row_mean reg out k sf Xp c) [0..<length Xp],
      U @ map (row_stdv reg out k sf Xp c) [0..<length Xp],
      c + length Xp * nat k)"
proof (induction Xp arbitrary: c P U)
  case Nil
  then show ?case by simp
next
  case (Cons x xs)
  have m: "map (row_mean reg out k sf (x # xs) c) [0..<length (x # xs)]
      = row_mean reg out k sf (x # xs) c 0 # map (row_mean reg out k sf xs (c + nat k)) [0..<length xs]"
    by (simp add: map_upt_Suc row_mean_def add.assoc add.commute del: upt_Suc)
  have s: "map (row_stdv reg out k sf (x # xs) c) [0..<length (x # xs)]
      = row_stdv reg out k sf (x # xs) c 0 # map (row_stdv reg out k sf xs (c + nat k)) [0..<length xs]"
    by (simp add: map_upt_Suc row_stdv_def add.assoc add.commute del: upt_Suc)
  show ?case
    unfolding m s
    by (simp add: draw_predictions_eq Cons.IH row_mean_def row_stdv_def add.assoc)
qed

lemma column_pass_samples:
  "j < out \<Longrightarrow> column (pass_samples reg out c x m) j = map (\<lambda>n. reg (c + n) x j) [0..<m]"
  by (simp add: column_def pass_samples_def forward_pass_def)

lemma sum_list_upt: "sum_list (map f [0..<m]) = (\<Sum>n<m. f n)"
  by (simp add: interv_sum_list_conv_sum_set_nat atLeast0LessThan)

lemma mean_list_upt: "mean_list (map f [0..<m]) = (\<Sum>n<m. f n) / real m"
  by (simp add: mean_list_def sum_list_upt)

lemma std_list_upt:
  "std_list (map f [0..<m]) = sqrt ((\<Sum>n<m. (f n - (\<Sum>n<m. f n) / real m)\<^sup>2) / real m)"
  by (simp add: std_list_def mean_list_def sum_list_upt comp_def)

lemma pass_samples_Cons:
  "0 < m \<Longrightarrow> \<exists>p ps. pass_samples reg out c x m = p # ps \<and> length p = out"
  by (cases m) (simp_all add: pass_samples_def map_upt_Suc forward_pass_def del: upt_Suc)

lemma np_mean_pass_samples:
  "0 < m \<Longrightarrow> np_mean_axis0 (pass_samples reg out c x m)
     = Arr (map (\<lambda>j. (\<Sum>n<m. reg (c + n) x j) / real m) [0..<out])"
proof -
  assume "0 < m"
  then obtain p ps where e: "pass_samples reg out c x m = p # ps" and l: "length p = out"
    using pass_samples_Cons by blast
  have "np_mean_axis0 (pass_samples reg out c x m)
      = Arr (map (\<lambda>j. mean_list (column (pass_samples reg out c x m) j)) [0..<out])"
    using l by (simp add: np_mean_axis0_def e)
  also have "\<dots> = Arr (map (\<lambda>j. (\<Sum>n<m. reg (c + n) x j) / real m) [0..<out])"
    by (simp add: column_pass_samples mean_list_upt)
  finally show ?thesis .
qed

lemma np_std_pass_samples:
  "0 < m \<Longrightarrow> np_std_axis0 (pass_samples reg out c x m)
     = Arr (map (\<lambda>j. sqrt ((\<Sum>n<m. (reg (c + n) x j - (\<Sum>n<m. reg (c + n) x j) / real m)\<^sup>2) / real m))
             [0..<out])"
proof -
  assume "0 < m"
  then obtain p ps where e: "pass_samples reg out c x m = p # ps" and l: "length p = out"
    using pass_samples_Cons by blast
  have "np_std_axis0 (pass_samples reg out c x m)
      = Arr (map (\<lambda>j. std_list (column (pass_samples reg out c x m) j)) [0..<out])"
    using l by (simp add: np_std_axis0_def e)
  also have "\<dots> = Arr (map (\<lambda>j. sqrt ((\<Sum>n<m. (reg (c + n) x j - (\<Sum>n<m. reg (c + n) x j) / real m)\<^sup>2) / real m))
             [0..<out])"
    by (simp add: column_pass_samples std_list_upt)
  finally show ?thesis .
qed

lemma pass_samples_0: "pass_samples reg out c x 0 = []"
  by (simp add: pass_samples_def)

text \<open>
  C1.  For the rows \<open>Xp\<close> the loop makes \<open>K\<close> passes per row (\<open>range(K)\<close>: none when
  \<open>K\<close> is not positive, and then both values are NaN), row \<open>i\<close> taking the passes number
  \<open>i * K\<close> to \<open>i * K + K - 1\<close>, and appends one prediction and one uncertainty per row.
  For a positive \<open>K\<close>, entry \<open>j\<close> of the prediction of row \<open>i\<close> is the mean of entry \<open>j\<close>
  of its \<open>K\<close> passes times the scaling factor, and entry \<open>j\<close> of the uncertainty is their
  standard deviation (the root of the mean squared deviation from the mean, as \<open>np.std\<close>
  computes it) times the same factor.
\<close>

theorem monte_carlo_rows:
  "case predict_rows reg out k sf Xp of (predicted, uncertainty, passes) \<Rightarrow>
     length predicted = length Xp \<and> length uncertainty = length Xp
     \<and> passes = length Xp * nat k
     \<and> (\<forall>i<length Xp.
          (k \<le> 0 \<longrightarrow> predicted ! i = NaN \<and> uncertainty ! i = NaN)
        \<and> (0 < k \<longrightarrow>
             (\<exists>pm ps. predicted ! i = Arr pm \<and> uncertainty ! i = Arr ps
                \<and> length pm = out \<and> length ps = out
                \<and> (\<forall>j<out.
                     let s = (\<lambda>n. reg (i * nat k + n) (Xp ! i) j);
                         mu = (\<Sum>n<nat k. s n) / real_of_int k
                     in pm ! j = mu * sf
                      \<and> ps ! j = sqrt ((\<Sum>n<nat k. (s n - mu)\<^sup>2) / real_of_int k) * sf))))"
proof -
  have e: "predict_rows reg out k sf Xp =
     (map (row_mean reg out k sf Xp 0) [0..<length Xp],
      map (row_stdv reg out k sf Xp 0) [0..<length Xp], length Xp * nat k)"
    by (simp add: predict_rows_def predict_loop_eq)
  have neg: "k \<le> 0 \<Longrightarrow> row_mean reg out k sf Xp 0 i = NaN \<and> row_stdv reg out k sf Xp 0 i = NaN" for i
    by (simp add: row_mean_def row_stdv_def pass_samples_0 np_mean_axis0_def np_std_axis0_def)
  have pos: "\<exists>pm ps. row_mean reg out k sf Xp 0 i = Arr pm \<and> row_stdv reg out k sf Xp 0 i = Arr ps
                \<and> length pm = out \<and> length ps = out
                \<and> (\<forall>j<out.
                     let s = (\<lambda>n. reg (i * nat k + n) (Xp ! i) j);
                         mu = (\<Sum>n<nat k. s n) / real_of_int k
                     in pm ! j = mu * sf
                      \<and> ps ! j = sqrt ((\<Sum>n<nat k. (s n - mu)\<^sup>2) / real_of_int k) * sf)"
    if "0 < k" for i
  proof -
    from that have m: "0 < nat k" and r: "real (nat k) = real_of_int k" by simp_all
    show ?thesis
      by (simp add: row_mean_def row_stdv_def np_mean_pass_samples [OF m]
          np_std_pass_samples [OF m] r Let_def)
  qed
  show ?thesis
    unfolding e using neg pos by simp
qed

theorem monte_carlo_rows_witness:
  "\<exists>p u pm ps. predict_rows example_reg 2 2 3 [[1], [5]] = (p, u, 4)
     \<and> length p = 2 \<and> length u = 2
     \<and> p ! 1 = Arr pm \<and> u ! 1 = Arr ps \<and> pm ! 1 = 21 \<and> ps ! 1 = 3"
proof -
  obtain p u n where e: "predict_rows example_reg 2 2 3 [[1], [5]] = (p, u, n)"
    by (cases "predict_rows example_reg 2 2 3 [[1], [5]]") auto
  have f: "length p = 2 \<and> length u = 2 \<and> n = 4
     \<and> (\<forall>i<2. \<exists>pm ps. p ! i = Arr pm \<and> u ! i = Arr ps \<and> length pm = 2 \<and> length ps = 2
          \<and> (\<forall>j<2. pm ! j = (\<Sum>n<2. example_reg (i * 2 + n) ([[1], [5]] ! i) j) / 2 * 3
              \<and> ps ! j = sqrt ((\<Sum>n<2. (example_reg (i * 2 + n) ([[1], [5]] ! i) j
                    - (\<Sum>n<2. example_reg (i * 2 + n) ([[1], [5]] ! i) j) / 2)\<^sup>2) / 2) * 3))"
    using monte_carlo_rows [where reg = example_reg and out = 2 and k = 2 and sf = 3
        and Xp = "[[1], [5]]"] unfolding e
    by (simp add: Let_def)
  then obtain pm ps where g: "p ! 1 = Arr pm" "u ! 1 = Arr ps"
      "pm ! 1 = (\<Sum>n<2. example_reg (1 * 2 + n) ([[1], [5]] ! 1) 1) / 2 * 3"
      "ps ! 1 = sqrt ((\<Sum>n<2. (example_reg (1 * 2 + n) ([[1], [5]] ! 1) 1
                    - (\<Sum>n<2. example_reg (1 * 2 + n) ([[1], [5]] ! 1) 1) / 2)\<^sup>2) / 2) * 3"
    by (metis one_less_numeral_iff semiring_norm(76))
  have s2: "(\<Sum>n<2. h n) = h 0 + h (1::nat)" for h :: "nat \<Rightarrow> real"
    by (simp add: numeral_2_eq_2)
  have "pm ! 1 = 21" using g(3) by (simp add: s2 example_reg_def)
  moreover have "ps ! 1 = 3" using g(4) by (simp add: s2 example_reg_def)
  ultimately show ?thesis using e f g by simp
qed

section \<open>Properties of the two-layer regressor\<close>

lemma layer_call_ok:
  "length x = in_features l \<Longrightarrow> \<exists>y. layer_call l c x = Inr y \<and> length y = out_features l"
  by (simp add: layer_call_def)

lemma layer_call_raises:
  "length x \<noteq> in_features l \<Longrightarrow> \<exists>e. layer_call l c x = Inl e"
  by (simp add: layer_call_def)

text \<open>
  C2.  The regressor built for an input and an output dimension has a first layer from
  the input dimension to 128 and a second layer from 128 to the output dimension, and its
  forward pass is the second layer applied to the sigmoid of the first layer's output.
  On an input of the declared length both layers succeed and the output has the declared
  length; on any other input the pass raises.
\<close>

theorem regressor_forward:
  "let r = BayesianRegressor d1 d2 inp outp in
     in_features (blinear1 r) = inp \<and> out_features (blinear1 r) = 128
   \<and> in_features (blinear2 r) = 128 \<and> out_features (blinear2 r) = outp
   \<and> forward r c x = (case layer_call (blinear1 r) c x of
                         Inl e \<Rightarrow> Inl e
                       | Inr h \<Rightarrow> layer_call (blinear2 r) c (map sigmoid h))
   \<and> (length x = inp \<longrightarrow>
        (\<exists>h y. layer_call (blinear1 r) c x = Inr h \<and> length h = 128
            \<and> layer_call (blinear2 r) c (map sigmoid h) = Inr y
            \<and> forward r c x = Inr y \<and> length y = outp))
   \<and> (length x \<noteq> inp \<longrightarrow> (\<exists>e. forward r c x = Inl e))"
proof -
  define r where "r = BayesianRegressor d1 d2 inp outp"
  have d: "in_features (blinear1 r) = inp" "out_features (blinear1 r) = 128"
      "in_features (blinear2 r) = 128" "out_features (blinear2 r) = outp" "sigmoid1 r = sigmoid"
    by (simp_all add: r_def BayesianRegressor_def BayesianLinear_def)
  have f: "forward r c x = (case layer_call (blinear1 r) c x of
                         Inl e \<Rightarrow> Inl e
                       | Inr h \<Rightarrow> layer_call (blinear2 r) c (map sigmoid h))"
    by (simp add: forward_def and_then_def d(5) split: sum.splits)
  have ok: "\<exists>h y. layer_call (blinear1 r) c x = Inr h \<and> length h = 128
            \<and> layer_call (blinear2 r) c (map sigmoid h) = Inr y
            \<and> forward r c x = Inr y \<and> length y = outp" if "length x = inp"
  proof -
    from that d obtain h where h: "layer_call (blinear1 r) c x = Inr h" "length h = 128"
      using layer_call_ok [of x "blinear1 r" c] by auto
    then obtain y where y: "layer_call (blinear2 r) c (map sigmoid h) = Inr y" "length y = outp"
      using layer_call_ok [of "map sigmoid h" "blinear2 r" c] d by auto
    show ?thesis using h y f by simp
  qed
  have bad: "\<exists>e. forward r c x = Inl e" if "length x \<noteq> inp"
    using layer_call_raises [of x "blinear1 r" c] that d f by auto
  show ?thesis
    unfolding Let_def r_def [symmetric] using d f ok bad by blast
qed

theorem regressor_forward_witness:
  "(\<exists>y. forward (BayesianRegressor example_draws1 example_draws2 2 1) 3 [1, 2] = Inr y \<and> length y = 1)
   \<and> (\<exists>e. forward (BayesianRegressor example_draws1 example_draws2 2 1) 3 [1] = Inl e)"
proof -
  have l2: "length [1::real, 2] = 2" and l1: "length [1::real] \<noteq> 2"
    by simp_all
  have "\<exists>y. forward (BayesianRegressor example_draws1 example_draws2 2 1) 3 [1, 2] = Inr y
          \<and> length y = 1"
    using l2 regressor_forward [where ?d1.0 = example_draws1 and ?d2.0 = example_draws2
        and inp = 2 and outp = 1 and c = 3 and x = "[1, 2]"]
    unfolding Let_def by blast
  moreover have "\<exists>e. forward (BayesianRegressor example_draws1 example_draws2 2 1) 3 [1] = Inl e"
    using l1 regressor_forward [where ?d1.0 = example_draws1 and ?d2.0 = example_draws2
        and inp = 2 and outp = 1 and c = 3 and x = "[1]"]
    unfolding Let_def by blast
  ultimately show ?thesis by blast
qed

section \<open>Properties of evaluate\_regression\<close>

lemma torch_stack_upt:
  assumes "0 < S" and "\<forall>i<S. length (f i) = n"
  shows "torch_stack (map f [0..<S]) = Inr (map f [0..<S])"
proof -
  from assms(1) obtain S' where S: "S = Suc S'" by (cases S) auto
  have "map f [0..<S] = f 0 # map (\<lambda>i. f (Suc i)) [0..<S']"
    unfolding S by (simp add: map_upt_Suc del: upt_Suc)
  moreover have "list_all (\<lambda>u. length u = length (f 0)) (map f [0..<S])"
    using assms by (simp add: list_all_iff)
  ultimately show ?thesis by (simp add: torch_stack_def)
qed

lemma column_map_upt: "column (map f [0..<S]) j = map (\<lambda>i. f i ! j) [0..<S]"
  by (simp add: column_def)

lemma mean_list_mc: "mean_list (map s [0..<S]) = mc_mean s S"
  by (simp add: mean_list_def mc_mean_def interv_sum_list_conv_sum_set_nat atLeast0LessThan)

lemma torch_std_mc: "2 \<le> S \<Longrightarrow> torch_std (map s [0..<S]) = Some (mc_std s S)"
  by (simp add: torch_std_def mc_std_def mean_list_mc interv_sum_list_conv_sum_set_nat
      atLeast0LessThan comp_def)

lemma torch_std_single: "S \<le> 1 \<Longrightarrow> torch_std (map s [0..<S]) = None"
  by (simp add: torch_std_def)

lemma map2_upt: "map2 f (map g [0..<n]) (map h [0..<n]) = map (\<lambda>j. f (g j) (h j)) [0..<n]"
  by (simp add: zip_map_map zip_same_conv_map)

lemma map2_upt_nth:
  "length ys = n \<Longrightarrow> map2 f (map g [0..<n]) ys = map (\<lambda>j. f (g j) (ys ! j)) [0..<n]"
proof -
  assume "length ys = n"
  then have n: "n = length ys" by simp
  have "map2 f (map g [0..<length ys]) (map (\<lambda>j. ys ! j) [0..<length ys])
      = map (\<lambda>j. f (g j) (ys ! j)) [0..<length ys]"
    by (rule map2_upt)
  then show ?thesis unfolding n by (simp only: map_nth)
qed

lemma float_mean_upt:
  "0 < n \<Longrightarrow> float_mean (map P [0..<n]) = Some (fraction n P)"
proof -
  assume n: "0 < n"
  have d: "distinct (filter P [0..<n])" by simp
  have "length (filter (\<lambda>b. b) (map P [0..<n])) = length (filter P [0..<n])"
    by (simp add: filter_map comp_def)
  also have "\<dots> = card (set (filter P [0..<n]))"
    using distinct_card [OF d] by simp
  also have "set (filter P [0..<n]) = {j. j < n \<and> P j}"
    by auto
  finally show ?thesis using n by (simp add: float_mean_def fraction_def)
qed

text \<open>
  C5.  \<open>evaluate_regression\<close> calls the regressor \<open>samples\<close> times on \<open>X\<close> (calls number
  0 to \<open>samples - 1\<close>).  With at least two samples, each of the shape of the targets
  \<open>y\<close>, it returns three fractions over the entries of \<open>y\<close>: of the targets inside
  \<open>[mean - m * std, mean + m * std]\<close>, of the targets not above the upper bound and of the
  targets not below the lower bound, mean and standard deviation taken entry by entry
  over the samples.  With a single sample the standard deviation is NaN and all three
  fractions are 0; with no sample \<open>torch.stack\<close> raises.
\<close>

theorem evaluate_regression_coverage:
  fixes regressor :: "nat \<Rightarrow> 'x \<Rightarrow> real list"
  shows
  "(samples \<le> 0 \<longrightarrow> (\<exists>e. evaluate_regression regressor X y samples m = Inl e))
   \<and> (0 < samples \<and> (\<forall>i<nat samples. length (regressor i X) = length y) \<and> y \<noteq> [] \<longrightarrow>
        (let S = nat samples;
             mean = (\<lambda>j. mc_mean (\<lambda>i. regressor i X ! j) S);
             std = (\<lambda>j. mc_std (\<lambda>i. regressor i X ! j) S);
             ci_upper = (\<lambda>j. mean j + m * std j);
             ci_lower = (\<lambda>j. mean j - m * std j)
         in evaluate_regression regressor X y samples m =
              (if samples = 1 then Inr (Some 0, Some 0, Some 0)
               else Inr (Some (fraction (length y) (\<lambda>j. ci_lower j \<le> y ! j \<and> y ! j \<le> ci_upper j)),
                         Some (fraction (length y) (\<lambda>j. y ! j \<le> ci_upper j)),
                         Some (fraction (length y) (\<lambda>j. ci_lower j \<le> y ! j))))))"
proof (intro conjI impI)
  assume "samples \<le> 0"
  then show "\<exists>e. evaluate_regression regressor X y samples m = Inl e"
    by (simp add: evaluate_regression_def torch_stack_def and_then_def)
next
  assume a: "0 < samples \<and> (\<forall>i<nat samples. length (regressor i X) = length y) \<and> y \<noteq> []"
  define S where "S = nat samples"
  define n where "n = length y"
  define f where "f = (\<lambda>i. regressor i X)"
  from a have S: "0 < S" and len: "\<forall>i<S. length (f i) = n" and n: "0 < n"
    by (simp_all add: S_def n_def f_def)
  have st: "torch_stack (map f [0..<S]) = Inr (map f [0..<S])"
    using S len by (rule torch_stack_upt)
  have hd: "length (hd (map f [0..<S])) = n"
    using S len by (cases S) (simp_all add: map_upt_Suc del: upt_Suc)
  have mean: "map (\<lambda>j. mean_list (column (map f [0..<S]) j)) [0..<n]
      = map (\<lambda>j. mc_mean (\<lambda>i. f i ! j) S) [0..<n]"
    by (simp add: column_map_upt mean_list_mc)
  show "let S = nat samples;
             mean = (\<lambda>j. mc_mean (\<lambda>i. regressor i X ! j) S);
             std = (\<lambda>j. mc_std (\<lambda>i. regressor i X ! j) S);
             ci_upper = (\<lambda>j. mean j + m * std j);
             ci_lower = (\<lambda>j. mean j - m * std j)
         in evaluate_regression regressor X y samples m =
              (if samples = 1 then Inr (Some 0, Some 0, Some 0)
               else Inr (Some (fraction (length y) (\<lambda>j. ci_lower j \<le> y ! j \<and> y ! j \<le> ci_upper j)),
                         Some (fraction (length y) (\<lambda>j. y ! j \<le> ci_upper j)),
                         Some (fraction (length y) (\<lambda>j. ci_lower j \<le> y ! j))))"
  proof (cases "samples = 1")
    case True
    then have S1: "S = 1" by (simp add: S_def)
    have std: "map (\<lambda>j. torch_std (column (map f [0..<S]) j)) [0..<n] = map (\<lambda>j. None) [0..<n]"
      unfolding column_map_upt using S1 by (simp add: torch_std_def)
    have z: "fraction n (\<lambda>j. False) = 0" by (simp add: fraction_def)
    have "evaluate_regression regressor X y samples m = Inr (Some 0, Some 0, Some 0)"
      unfolding evaluate_regression_def S_def [symmetric] f_def [symmetric] st and_then_def
      using n
      by (simp add: hd mean std Let_def map2_upt n_def [symmetric] map2_upt_nth [OF n_def [symmetric]]
          le_nan_def float_mean_upt z)
    with True show ?thesis by (simp add: Let_def)
  next
    case False
    with a have "2 \<le> samples" by arith
    then have S2: "2 \<le> S" by (simp add: S_def)
    have std: "map (\<lambda>j. torch_std (column (map f [0..<S]) j)) [0..<n]
        = map (\<lambda>j. Some (mc_std (\<lambda>i. f i ! j) S)) [0..<n]"
      unfolding column_map_upt using S2 by (simp add: torch_std_mc)
    have "evaluate_regression regressor X y samples m =
        Inr (Some (fraction n (\<lambda>j. mc_mean (\<lambda>i. f i ! j) S - m * mc_std (\<lambda>i. f i ! j) S \<le> y ! j
                      \<and> y ! j \<le> mc_mean (\<lambda>i. f i ! j) S + m * mc_std (\<lambda>i. f i ! j) S)),
             Some (fraction n (\<lambda>j. y ! j \<le> mc_mean (\<lambda>i. f i ! j) S + m * mc_std (\<lambda>i. f i ! j) S)),
             Some (fraction n (\<lambda>j. mc_mean (\<lambda>i. f i ! j) S - m * mc_std (\<lambda>i. f i ! j) S \<le> y ! j)))"
      unfolding evaluate_regression_def S_def [symmetric] f_def [symmetric] st and_then_def
      using n
      by (simp add: hd mean std Let_def map2_upt n_def [symmetric] map2_upt_nth [OF n_def [symmetric]]
          le_nan_def float_mean_upt)
    with False show ?thesis by (simp add: Let_def S_def f_def n_def)
  qed
qed

lemma fraction_2: "fraction (Suc (Suc 0)) P = (of_bool (P 0) + of_bool (P (Suc 0))) / 2"
proof -
  have "{j. j < Suc (Suc 0) \<and> P j} = (if P 0 then {0} else {}) \<union> (if P (Suc 0) then {Suc 0} else {})"
    by (cases "P 0"; cases "P (Suc 0)"; auto simp: less_Suc_eq intro: gr0I)
  then show ?thesis by (simp add: fraction_def)
qed

theorem evaluate_regression_coverage_witness:
  "evaluate_regression example_regressor () [1, 0] 3 1 = Inr (Some (1 / 2), Some 1, Some (1 / 2))
   \<and> evaluate_regression example_regressor () [1, 0] 1 1 = Inr (Some 0, Some 0, Some 0)
   \<and> (\<exists>e. evaluate_regression example_regressor () [1, 0] 0 1 = Inl e)"
proof -
  have s3: "(\<Sum>i<3. h i) = h 0 + h 1 + h (2::nat)" for h :: "nat \<Rightarrow> real"
    by (simp add: numeral_3_eq_3 numeral_2_eq_2)
  have len: "length (example_regressor i X) = 2" for i X
    by (simp add: example_regressor_def)
  have m0: "mc_mean (\<lambda>i. example_regressor i () ! 0) 3 = 1"
    and m1: "mc_mean (\<lambda>i. example_regressor i () ! Suc 0) 3 = 10"
    by (simp_all add: mc_mean_def s3 example_regressor_def)
  have d0: "mc_std (\<lambda>i. example_regressor i () ! 0) 3 = 1"
    unfolding mc_std_def m0 by (simp add: s3 example_regressor_def)
  have d1: "mc_std (\<lambda>i. example_regressor i () ! Suc 0) 3 = 0"
    unfolding mc_std_def m1 by (simp add: s3 example_regressor_def)
  have "evaluate_regression example_regressor () [1, 0] 3 1
      = Inr (Some (1 / 2), Some 1, Some (1 / 2))"
    using evaluate_regression_coverage [where regressor = example_regressor and X = "()"
        and y = "[1, 0]" and samples = 3 and m = 1]
    by (simp add: Let_def len fraction_2 m0 m1 d0 d1)
  moreover have "evaluate_regression example_regressor () [1, 0] 1 1 = Inr (Some 0, Some 0, Some 0)"
    using evaluate_regression_coverage [where regressor = example_regressor and X = "()"
        and y = "[1, 0]" and samples = 1 and m = 1]
    by (simp add: Let_def len)
  moreover have "\<exists>e. evaluate_regression example_regressor () [1, 0] 0 1 = Inl e"
    using evaluate_regression_coverage [where regressor = example_regressor and X = "()"
        and y = "[1, 0]" and samples = 0 and m = 1]
    by simp
  ultimately show ?thesis by blast
qed

section \<open>Properties of the rebuilt regressor\<close>

lemma build_regressor_device:
  "snd (build_regressor True accepts csv trained_network t)
     = snd (build_regressor False accepts csv trained_network t)"
  by (simp add: build_regressor_def Let_def)

text \<open>
  C7.  Whenever predict\_impl gets as far as a regressor with its weights loaded, with or
  without CUDA, the declared input dimension of that regressor is the number of columns
  of the input CSV whose names match \<open>latent_\<close> (the prefix that the call of \<open>loadData\<close>
  passes), and its declared output dimension is the length of the checkpoint's entry
  \<open>linear_output.weight\<close>, the checkpoint whose state it has loaded.
\<close>

theorem regressor_dimensions:
  assumes "snd (build_regressor cuda accepts csv trained_network t) = Inr r"
  shows "input_dim r = length (filter (\<lambda>c. re_search ''latent_'' (fst c)) (columns csv))
       \<and> (\<exists>sd w. trained_network ''model_state_dict'' = Some (StateDict sd)
             \<and> sd ''linear_output.weight'' = Some w
             \<and> output_dim r = length w \<and> state r = Some sd)"
  using assms
  by (auto simp: build_regressor_def Let_def output_size_of_def state_dict_of_def
      BayesianRegressor_new_def loadData_n_latents_def filter_regex_def
      split: sum.splits option.splits entry.splits if_splits)

theorem regressor_dimensions_witness:
  "\<exists>r. snd (build_regressor False (\<lambda>r sd. True) example_csv example_checkpoint ''linear'') = Inr r
     \<and> input_dim r = 2 \<and> output_dim r = 1"
proof -
  have e: "snd (build_regressor False (\<lambda>r sd. True) example_csv example_checkpoint ''linear'')
      = Inr \<lparr> input_dim = 2, output_dim = 1, output_type = ''linear'',
              state = Some [''linear_output.weight'' \<mapsto> [[1, 2, 3]]] \<rparr>"
    by (simp add: build_regressor_def Let_def output_size_of_def state_dict_of_def
        BayesianRegressor_new_def loadData_n_latents_def filter_regex_def example_csv_def
        example_checkpoint_def)
  from regressor_dimensions [OF e] show ?thesis
    unfolding e by (simp add: example_csv_def example_checkpoint_def)
qed

section \<open>Properties of the output table\<close>

lemma names_drop_filter:
  "column_names (drop_columns (column_names (filter_regex key df)) df)
     = filter (\<lambda>c. \<not> re_search key c) (column_names df)"
proof -
  have "fst c \<notin> set (column_names (filter_regex key df)) \<longleftrightarrow> \<not> re_search key (fst c)"
    if "c \<in> set (columns df)" for c
    using that by (auto simp: filter_regex_def column_names_def)
  then have "filter (\<lambda>c. fst c \<notin> set (column_names (filter_regex key df))) (columns df)
      = filter (\<lambda>c. \<not> re_search key (fst c)) (columns df)"
    by (intro filter_cong) auto
  then show ?thesis by (simp add: drop_columns_def column_names_def filter_map comp_def)
qed

lemma names_concat_axis1:
  "column_names (concat_axis1 a b) = column_names a @ column_names b"
  by (simp add: concat_axis1_def column_names_def pad_column_def Let_def comp_def)

lemma names_reset_index_drop: "column_names (reset_index_drop d) = column_names d"
  by (simp add: reset_index_drop_def column_names_def)

lemma names_index_name_update: "column_names (d\<lparr>index_name := x\<rparr>) = column_names d"
  by (simp add: column_names_def)

lemma names_reset_index_keep:
  "reset_index_keep df = Inr odf \<Longrightarrow> column_names odf = index_column_name df # column_names df"
  by (auto simp: reset_index_keep_def index_column_name_def column_names_def Let_def
      split: if_splits)

lemma DataFrame_of_names:
  "DataFrame_of d names = Inr f \<Longrightarrow> column_names f = names"
proof (cases d)
  case (Dim0 x)
  assume "DataFrame_of d names = Inr f"
  with Dim0 show ?thesis by (simp add: DataFrame_of_def)
next
  case (Dim1 xs)
  assume "DataFrame_of d names = Inr f"
  with Dim1 have l: "length names = 1" and f: "columns f = [(hd names, xs)]"
    by (auto simp: DataFrame_of_def split: if_splits)
  from l obtain a where "names = [a]" by (cases names) auto
  with f show ?thesis by (simp add: column_names_def)
next
  case (Dim2 rows)
  assume "DataFrame_of d names = Inr f"
  with Dim2 have "columns f = map (\<lambda>j. (names ! j, map (\<lambda>r. r ! j) rows)) [0..<length names]"
    by (auto simp: DataFrame_of_def split: if_splits)
  then have "column_names f = map (\<lambda>j. names ! j) [0..<length names]"
    by (simp add: comp_def column_names_def)
  then show ?thesis by (simp add: map_nth)
qed

lemma assemble_output_column_names:
  assumes "assemble_output df predicted uncertainty n out_key in_key = Inr out"
  shows "column_names out =
           filter (\<lambda>c. \<not> re_search in_key c)
             (index_column_name df # column_names df
                @ pred_column_names out_key n @ std_column_names out_key n)
         \<and> index_name out = Some ''index''"
proof -
  from assms obtain p' pdf u' udf odf where
      s: "DataFrame_of p' (pred_column_names out_key n) = Inr pdf"
         "DataFrame_of u' (std_column_names out_key n) = Inr udf"
         "reset_index_keep df = Inr odf"
    and o: "out = (drop_columns (column_names (filter_regex in_key
               (concat_axis1 (reset_index_drop odf)
                  (reset_index_drop (concat_axis1 (reset_index_drop pdf) (reset_index_drop udf))))))
               (concat_axis1 (reset_index_drop odf)
                  (reset_index_drop (concat_axis1 (reset_index_drop pdf) (reset_index_drop udf)))))
               \<lparr>index_name := Some ''index''\<rparr>"
    by (auto simp: assemble_output_def and_then_def Let_def split: sum.splits)
  show ?thesis
    unfolding o
    by (simp add: names_index_name_update names_drop_filter names_concat_axis1
        names_reset_index_drop names_reset_index_keep [OF s(3)]
        DataFrame_of_names [OF s(1)] DataFrame_of_names [OF s(2)])
qed

lemma latent_heat_prelude:
  "predict_prelude example_files example_now latent_heat_args =
     ([Info ''Bayesian NN inference module. Predicting hi-res terrain maps from lo-res features'',
       Info ''Prediction mode enabled. Looking for pretained network and input latent vectors'',
       Info ''Latent input file:  latents.csv'',
       Info ''Pre-trained network file [ net.pth ] found'',
       Info ''Output file:  out.csv'',
       Info ''Loading latent input [ latents.csv ]''],
      Proceeds \<lparr> output_name = ''out.csv'', k_samples = 2, output_key = ''latent_heat'',
                 input_key = ''latent_'', scaling_factor = 1 \<rparr>)"
  unfolding predict_prelude_def Let_def
  by (simp add: check_latent_csv_def check_network_def console_info_def
      console_error_def console_warn_def console_quit_def latent_heat_args_def
      make_config_def default_output_csv_def default_k_samples_def default_output_key_def
      default_input_key_def default_scaling_factor_def example_files_def)

lemma example_build:
  "build_regressor False (\<lambda>r sd. True) example_csv example_full_checkpoint ''linear'' =
     ([Warn ''Using CPU''],
      Inr \<lparr> input_dim = 2, output_dim = 1, output_type = ''linear'',
            state = Some [''linear_output.weight'' \<mapsto> [[1, 2, 3]]] \<rparr>)"
  unfolding build_regressor_def Let_def
  by (simp add: output_size_of_def state_dict_of_def console_warn_def
        BayesianRegressor_new_def loadData_n_latents_def filter_regex_def example_csv_def
        example_full_checkpoint_def)

lemma example_rows:
  "predict_rows constant_reg (Suc 0) 2 1 example_latents
     = ([Arr [3], Arr [7]], [Arr [0], Arr [0]], 4)"
  unfolding predict_rows_def example_latents_def
  by (simp add: numeral_2_eq_2 forward_pass_def np_mean_axis0_def np_std_axis0_def
     column_def mean_list_def std_list_def constant_reg_def)

lemma latent_heat_table:
  "assemble_output example_csv [Arr [3], Arr [7]] [Arr [0], Arr [0]] (Suc 0) ''latent_heat'' ''latent_''
   = Inr \<lparr> index_name = Some ''index'', index_vals = [Num 0, Num 1],
        columns = [(''id'', [Txt ''a'', Txt ''b'']), (''northing'', [Num 10, Num 20])] \<rparr>"
  unfolding assemble_output_def Let_def and_then_def
  by (simp add: np_squeeze_def DataFrame_of_def pred_column_names_def
    std_column_names_def reset_index_keep_def reset_index_drop_def concat_axis1_def column_names_def
    range_index_def pad_column_def drop_columns_def filter_regex_def str_nat.simps digit_char_def
    example_csv_def)

lemma example_metadata: "missing_metadata example_full_checkpoint = []"
  by (simp add: missing_metadata_def metadata_keys_def example_full_checkpoint_def)

lemma example_latents_not_empty: "\<exists>xs\<in>set example_latents. xs \<noteq> []"
  by (simp add: example_latents_def)

text \<open>
  C4.  The claim: the exported table has the input's metadata and, for every output
  dimension \<open>i\<close>, a column \<open>pred_<key>_<i>\<close> and a column \<open>std_<key>_<i>\<close>.  The columns
  that the input key selects are removed after the results have been appended, and the key
  is searched anywhere in a name (\<open>prediction_column_kept_iff\<close>): a result column whose
  name contains the key is removed with the latent columns.  The run below has the default
  latent key and the target key \<open>latent_heat\<close>, two rows and one output dimension; the
  table written has neither \<open>pred_latent_heat_0\<close> nor \<open>std_latent_heat_0\<close>.
\<close>

theorem prediction_columns_dropped:
  "predict_impl example_files example_now (Inr (example_latents, example_csv)) False
       (\<lambda>r sd. True) example_full_checkpoint constant_reg latent_heat_args ''linear''
   = ([Info ''Bayesian NN inference module. Predicting hi-res terrain maps from lo-res features'',
       Info ''Prediction mode enabled. Looking for pretained network and input latent vectors'',
       Info ''Latent input file:  latents.csv'',
       Info ''Pre-trained network file [ net.pth ] found'',
       Info ''Output file:  out.csv'',
       Info ''Loading latent input [ latents.csv ]'',
       Info ''Loading pretrained network [ net.pth ]'',
       Warn ''Using CPU'',
       Info ''Exporting predictions to: out.csv'',
       Info ''Done!''],
      Written ''out.csv''
        \<lparr> index_name = Some ''index'', index_vals = [Num 0, Num 1],
          columns = [(''id'', [Txt ''a'', Txt ''b'']), (''northing'', [Num 10, Num 20])] \<rparr>)"
  unfolding predict_impl_def latent_heat_prelude Let_def
  by (simp add: example_build example_metadata example_rows latent_heat_table console_info_def
      latent_heat_args_def example_latents_not_empty)

lemma depth_prelude:
  "predict_prelude example_files example_now depth_args =
     ([Info ''Bayesian NN inference module. Predicting hi-res terrain maps from lo-res features'',
       Info ''Prediction mode enabled. Looking for pretained network and input latent vectors'',
       Info ''Latent input file:  latents.csv'',
       Info ''Pre-trained network file [ net.pth ] found'',
       Info ''Output file:  out.csv'',
       Info ''Loading latent input [ latents.csv ]''],
      Proceeds \<lparr> output_name = ''out.csv'', k_samples = 2, output_key = ''depth'',
                 input_key = ''h'', scaling_factor = 1 \<rparr>)"
  unfolding predict_prelude_def Let_def
  by (simp add: check_latent_csv_def check_network_def console_info_def
      console_error_def console_warn_def console_quit_def depth_args_def
      make_config_def default_output_csv_def default_k_samples_def default_output_key_def
      default_input_key_def default_scaling_factor_def example_files_def)

lemma depth_table:
  "assemble_output example_csv [Arr [3], Arr [7]] [Arr [0], Arr [0]] (Suc 0) ''depth'' ''h''
   = Inr \<lparr> index_name = Some ''index'', index_vals = [Num 0, Num 1],
        columns = [(''id'', [Txt ''a'', Txt ''b'']), (''latent_0'', [Num 1, Num 3]),
                   (''latent_1'', [Num 2, Num 4])] \<rparr>"
  unfolding assemble_output_def Let_def and_then_def
  by (simp add: np_squeeze_def DataFrame_of_def pred_column_names_def
    std_column_names_def reset_index_keep_def reset_index_drop_def concat_axis1_def column_names_def
    range_index_def pad_column_def drop_columns_def filter_regex_def str_nat.simps digit_char_def
    example_csv_def)

text \<open>
  C10.  The claim: the exported table has no column that matches the latent key, all
  latent-feature columns of the input are removed, and every other input column is
  carried over next to the appended prediction and uncertainty columns.  No exported
  column contains the key (\<open>output_has_no_key_column\<close>) and every input column without it
  is kept (\<open>output_keeps_other_names\<close>); but the latent matrix is read with the fixed
  prefix \<open>latent_\<close> while the removal uses the key of the caller, anywhere in a name and
  on the result columns too.  The run below has the latent key \<open>h\<close> and the target key
  \<open>depth\<close>: the table written keeps \<open>latent_0\<close> and \<open>latent_1\<close>, and has lost the input
  column \<open>northing\<close> and both result columns.
\<close>

theorem latent_columns_kept_others_dropped:
  "predict_impl example_files example_now (Inr (example_latents, example_csv)) False
       (\<lambda>r sd. True) example_full_checkpoint constant_reg depth_args ''linear''
   = ([Info ''Bayesian NN inference module. Predicting hi-res terrain maps from lo-res features'',
       Info ''Prediction mode enabled. Looking for pretained network and input latent vectors'',
       Info ''Latent input file:  latents.csv'',
       Info ''Pre-trained network file [ net.pth ] found'',
       Info ''Output file:  out.csv'',
       Info ''Loading latent input [ latents.csv ]'',
       Info ''Loading pretrained network [ net.pth ]'',
       Warn ''Using CPU'',
       Info ''Exporting predictions to: out.csv'',
       Info ''Done!''],
      Written ''out.csv''
        \<lparr> index_name = Some ''index'', index_vals = [Num 0, Num 1],
          columns = [(''id'', [Txt ''a'', Txt ''b'']), (''latent_0'', [Num 1, Num 3]),
                     (''latent_1'', [Num 2, Num 4])] \<rparr>)"
  unfolding predict_impl_def depth_prelude Let_def
  by (simp add: example_build example_metadata example_rows depth_table console_info_def
      depth_args_def example_latents_not_empty)

lemma assemble_output_name_set:
  assumes "assemble_output df predicted uncertainty n out_key in_key = Inr out"
  shows "set (column_names out) =
           {c \<in> set (index_column_name df # column_names df
                        @ pred_column_names out_key n @ std_column_names out_key n).
              \<not> re_search in_key c}"
proof -
  have "column_names out =
           filter (\<lambda>c. \<not> re_search in_key c)
             (index_column_name df # column_names df
                @ pred_column_names out_key n @ std_column_names out_key n)"
    using assemble_output_column_names [OF assms] by blast
  then show ?thesis by (simp only: set_filter)
qed

lemma output_has_no_key_column:
  assumes "assemble_output df predicted uncertainty n out_key in_key = Inr out"
    and "c \<in> set (column_names out)"
  shows "\<not> re_search in_key c"
  using assms(2) unfolding assemble_output_name_set [OF assms(1)] by blast

lemma output_keeps_other_names:
  assumes "assemble_output df predicted uncertainty n out_key in_key = Inr out"
    and "c \<in> set (column_names df)" and "\<not> re_search in_key c"
  shows "c \<in> set (column_names out)"
  using assms(2,3) unfolding assemble_output_name_set [OF assms(1)] by simp

lemma prediction_column_kept_iff:
  assumes "assemble_output df predicted uncertainty n out_key in_key = Inr out"
    and "c \<in> set (pred_column_names out_key n) \<or> c \<in> set (std_column_names out_key n)"
  shows "c \<in> set (column_names out) \<longleftrightarrow> \<not> re_search in_key c"
  using assms(2) unfolding assemble_output_name_set [OF assms(1)] by auto

section \<open>Properties of load\_dataset\<close>

lemma load_dataset_result:
  "read_csv filename = Some df \<Longrightarrow>
   snd (load_dataset read_csv filename prefix)
     = Inr (IntValue 1, length (filter (\<lambda>c. re_search prefix (fst c)) (columns df)))"
  by (simp add: load_dataset_def Let_def filter_regex_def)

text \<open>
  C6.  The claim: \<open>load_dataset\<close> removes the invalid rows and returns the cleaned dataset
  with the number of latent dimensions.  The number of latent dimensions is returned
  (\<open>load_dataset_result\<close>), but the first component of the result is the integer 1 for
  every readable file, and no row is looked at.  The file below has a NaN in its second
  row.
\<close>

theorem load_dataset_returns_one:
  "load_dataset example_read_csv ''data.csv'' ''latent_'' =
     ([Info ''load_dataset called for:  data.csv'', Info ''Latent dimensions:  2''],
      Inr (IntValue 1, 2))"
  unfolding load_dataset_def Let_def
  by (simp add: example_read_csv_def example_nan_csv_def filter_regex_def console_info_def
      str_nat.simps digit_char_def)

section \<open>Properties of the training loop\<close>

lemma main_exits:
  "snd (main read_csv) = Inr SysExit \<or> (\<exists>e. snd (main read_csv) = Inl e)"
  by (auto simp: main_def Let_def split: prod.splits sum.splits)

lemma elbo_loop_sum:
  "elbo_loop T p b w m c loss
     = loss + (\<Sum>i<m. fit_loss T p (c + i) b + kl_divergence T p (c + i) * w)"
proof (induction m arbitrary: c loss)
  case 0
  then show ?case by simp
next
  case (Suc m)
  have "(\<Sum>i<Suc m. fit_loss T p (c + i) b + kl_divergence T p (c + i) * w)
      = fit_loss T p c b + kl_divergence T p c * w
        + (\<Sum>i<m. fit_loss T p (Suc c + i) b + kl_divergence T p (Suc c + i) * w)"
    by (simp add: sum.lessThan_Suc_shift del: sum.lessThan_Suc)
  with Suc show ?case by (simp del: sum.lessThan_Suc)
qed

lemma sample_elbo_average:
  "sample_elbo T p c b 3 (1 / real n_train) = elbo_average T n_train c b p"
  by (simp add: sample_elbo_def elbo_loop_sum elbo_average_def)

lemma train_batch_update:
  "0 < n_train \<Longrightarrow> train_batch T n_train s b = Inr (batch_update T n_train s b)"
  by (simp add: train_batch_def batch_update_def Let_def sample_elbo_average split: prod.splits)

lemma train_batches_foldl:
  "0 < n_train \<Longrightarrow> train_batches T n_train s bs = Inr (foldl (batch_update T n_train) s bs)"
  by (induction bs arbitrary: s) (simp_all add: train_batch_update and_then_def)

lemma train_epochs_foldl:
  "0 < n_train \<Longrightarrow>
   train_epochs T n_train dataloader_train m epoch s
     = Inr (foldl (batch_update T n_train) s (concat (map dataloader_train [epoch..<epoch + m])))"
proof (induction m arbitrary: epoch s)
  case 0
  then show ?case by simp
next
  case (Suc m)
  have "[epoch..<epoch + Suc m] = epoch # [Suc epoch..<Suc epoch + m]"
    by (simp add: upt_conv_Cons)
  with Suc show ?case
    by (simp add: train_batches_foldl and_then_def)
qed

lemma iteration_foldl:
  "iteration (foldl (batch_update T n_train) s bs) = iteration s + length bs"
  by (induction bs arbitrary: s) (simp_all add: batch_update_def Let_def)

lemma length_concat_epochs:
  "length (concat (map f [0..<m])) = (\<Sum>e<m. length (f e))"
  by (induction m) (simp_all)

text \<open>
  C8.  With a positive number of training examples the training loop runs to its end, and
  its result is the initial state taken through one \<open>batch_update\<close> for every mini-batch
  of every one of the 100 epochs, in order: for each mini-batch the gradients are cleared,
  the loss \<open>elbo_average\<close> (the mean over three stochastic passes of the fit plus the KL
  divergence weighted by one over the number of training examples) is backpropagated, and
  the optimizer makes one update; the iteration counter ends at the number of
  mini-batches.  (In \<open>main\<close> the loop is not reached: \<open>main_exits\<close>.)
\<close>

theorem training_loop_steps:
  assumes "0 < n_train"
  shows "\<exists>s'. training_loop T n_train dataloader_train s = Inr s'
           \<and> s' = foldl (batch_update T n_train) (s\<lparr>iteration := 0\<rparr>)
                    (concat (map dataloader_train [0..<100]))
           \<and> iteration s' = (\<Sum>epoch<100. length (dataloader_train epoch))"
proof -
  have "training_loop T n_train dataloader_train s
      = Inr (foldl (batch_update T n_train) (s\<lparr>iteration := 0\<rparr>)
               (concat (map dataloader_train [0..<0 + 100])))"
    unfolding training_loop_def using assms by (rule train_epochs_foldl)
  then show ?thesis
    by (simp add: iteration_foldl length_concat_epochs)
qed

theorem training_loop_steps_witness:
  "\<exists>s'. training_loop example_torch 2 (\<lambda>epoch. [1, 3]) example_trainer = Inr s'
          \<and> iteration s' = 200"
  using training_loop_steps [where T = example_torch and n_train = 2
      and dataloader_train = "\<lambda>epoch. [1, 3]" and s = example_trainer]
  by auto

lemma example_first_batch:
  "batch_update example_torch 2 (example_trainer\<lparr>iteration := 0\<rparr>) 3
     = \<lparr> params = 11 / 20, grads = 9 / 2, optimizer = (), draws = 3, iteration = 1 \<rparr>"
  by (simp add: batch_update_def elbo_average_def example_torch_def example_trainer_def Let_def
      numeral_3_eq_3 power2_eq_square)

end
